theory Spec2Isabelle
  imports Complex_Main
begin

section \<open>Numbers, vectors and the terrain field\<close>

text \<open>
  The scene code computes with JavaScript numbers. They are modelled as \<open>real\<close>:
  every comparison, sum and product below is the one the source writes, read over
  the reals. Three.js vectors are records of three reals.
\<close>

record vec3 =
  vx :: real
  vy :: real
  vz :: real

definition V3 :: "real \<Rightarrow> real \<Rightarrow> real \<Rightarrow> vec3" where
  "V3 a b c = \<lparr>vx = a, vy = b, vz = c\<rparr>"

definition vadd :: "vec3 \<Rightarrow> vec3 \<Rightarrow> vec3" where
  "vadd a b = V3 (vx a + vx b) (vy a + vy b) (vz a + vz b)"

definition vsub :: "vec3 \<Rightarrow> vec3 \<Rightarrow> vec3" where
  "vsub a b = V3 (vx a - vx b) (vy a - vy b) (vz a - vz b)"

definition multiplyScalar :: "vec3 \<Rightarrow> real \<Rightarrow> vec3" where
  "multiplyScalar a s = V3 (vx a * s) (vy a * s) (vz a * s)"

definition lengthSq :: "vec3 \<Rightarrow> real" where
  "lengthSq a = vx a * vx a + vy a * vy a + vz a * vz a"

definition vlength :: "vec3 \<Rightarrow> real" where
  "vlength a = sqrt (lengthSq a)"

text \<open>Three.js: \<^verbatim>\<open>divideScalar(this.length() || 1)\<close>.\<close>

definition normalize :: "vec3 \<Rightarrow> vec3" where
  "normalize a = (let l = vlength a; d = (if l = 0 then 1 else l)
                  in V3 (vx a / d) (vy a / d) (vz a / d))"

definition distanceTo :: "vec3 \<Rightarrow> vec3 \<Rightarrow> real" where
  "distanceTo a b = vlength (vsub a b)"

text \<open>Three.js \<^verbatim>\<open>v.lerp(t, alpha)\<close>: \<^verbatim>\<open>v += (t - v) * alpha\<close>, per component.\<close>

definition vlerp :: "vec3 \<Rightarrow> vec3 \<Rightarrow> real \<Rightarrow> vec3" where
  "vlerp a t alpha = V3 (vx a + (vx t - vx a) * alpha) (vy a + (vy t - vy a) * alpha)
                        (vz a + (vz t - vz a) * alpha)"

definition CHUNK_SIZE :: int where "CHUNK_SIZE = 32"
definition RENDER_DISTANCE_IN_CHUNKS :: int where "RENDER_DISTANCE_IN_CHUNKS = 5"
definition PLAYER_SPEED :: real where "PLAYER_SPEED = 9"
definition PLAYER_RUN_MULTIPLIER :: real where "PLAYER_RUN_MULTIPLIER = 2"
definition PLAYER_ROTATION_SPEED :: real where "PLAYER_ROTATION_SPEED = 3"
definition GRAVITY :: real where "GRAVITY = 30"
definition JUMP_FORCE :: real where "JUMP_FORCE = 10"

text \<open>utils.ts, \<^verbatim>\<open>getHeight\<close>: two layers of sine and cosine.\<close>

definition getHeight :: "real \<Rightarrow> real \<Rightarrow> real" where
  "getHeight x z =
     (let scale = 80; roughness = 0.6; amplitude = 15;
          height = sin (x / scale) * cos (z / scale) * amplitude
      in height + (sin (x / (scale * 0.5)) * cos (z / (scale * 0.5))) * amplitude * roughness)"

section \<open>The player controller\<close>

text \<open>
  The state the frame loop keeps for the player: \<^verbatim>\<open>character.position\<close>,
  \<^verbatim>\<open>character.rotation.y\<close>, \<^verbatim>\<open>playerVelocity.y\<close>, \<^verbatim>\<open>isOnGround\<close> and
  \<^verbatim>\<open>wasOnGround\<close>. What one frame reads from the host is a \<open>frame_input\<close>:
  the clock's delta and elapsed time, the joystick vector, the keys held and the jump flag.
\<close>

record player =
  pos :: vec3
  rotY :: real
  velY :: real
  isOnGround :: bool
  wasOnGround :: bool

record frame_input =
  delta :: real
  elapsedTime :: real
  isMobile :: bool
  moveX :: real
  moveY :: real
  keyForward :: bool
  keyBack :: bool
  keyLeft :: bool
  keyRight :: bool
  keyShift :: bool
  keySpace :: bool
  isJumping :: bool

definition MOUSE_SENSITIVITY :: real where "MOUSE_SENSITIVITY = 0.002"

text \<open>\<^verbatim>\<open>handleMouseMove\<close>: the desktop look handler turns the character between frames.\<close>

definition handleMouseMove :: "real \<Rightarrow> player \<Rightarrow> player" where
  "handleMouseMove movementX p = p\<lparr>rotY := rotY p - movementX * MOUSE_SENSITIVITY\<rparr>"

text \<open>\<^verbatim>\<open>animate\<close>, "Player Movement": the touch branch and the keyboard branch.\<close>

definition player_move :: "frame_input \<Rightarrow> player \<Rightarrow> player" where
  "player_move inp p =
     (if isMobile inp then
        (let r = rotY p - moveX inp * PLAYER_ROTATION_SPEED * delta inp;
             p1 = p\<lparr>rotY := r\<rparr>
         in if moveY inp \<noteq> 0 then
              (let moveSpeed = PLAYER_SPEED * moveY inp
               in p1\<lparr>pos := (pos p)\<lparr>vx := vx (pos p) + sin r * moveSpeed * delta inp,
                                         vz := vz (pos p) + cos r * moveSpeed * delta inp\<rparr>\<rparr>)
            else p1)
      else
        (let forwardInput = (if keyForward inp then 1 else 0) - (if keyBack inp then 1 else (0::real));
             strafeInput = (if keyLeft inp then 1 else 0) - (if keyRight inp then 1 else (0::real));
             walkMagnitude = max \<bar>forwardInput\<bar> \<bar>strafeInput\<bar>;
             isRunning = (keyShift inp \<and> walkMagnitude > 0.1);
             currentSpeed = (if isRunning then PLAYER_SPEED * PLAYER_RUN_MULTIPLIER else PLAYER_SPEED)
         in if forwardInput \<noteq> 0 \<or> strafeInput \<noteq> 0 then
              (let moveDirection = normalize (V3 strafeInput 0 forwardInput);
                   moveSpeed = currentSpeed * delta inp;
                   forwardDir = V3 (sin (rotY p)) 0 (cos (rotY p));
                   rightDir = V3 (vz forwardDir) 0 (- vx forwardDir)
               in p\<lparr>pos := vadd (vadd (pos p) (multiplyScalar forwardDir (vz moveDirection * moveSpeed)))
                                   (multiplyScalar rightDir (vx moveDirection * moveSpeed))\<rparr>)
            else p))"

text \<open>
  The vertical integration and the clamp: gravity is integrated into the velocity, the
  velocity into the height, and a height at or below \<^verbatim>\<open>getHeight(x, z) + 1.0\<close> is set to it.
\<close>

definition player_ground :: "real \<Rightarrow> player \<Rightarrow> player" where
  "player_ground dt p =
     (let groundYPosition = getHeight (vx (pos p)) (vz (pos p)) + 1.0;
          v = velY p - GRAVITY * dt;
          y = vy (pos p) + v * dt
      in if y \<le> groundYPosition
         then p\<lparr>pos := (pos p)\<lparr>vy := groundYPosition\<rparr>, velY := 0, isOnGround := True\<rparr>
         else p\<lparr>pos := (pos p)\<lparr>vy := y\<rparr>, velY := v\<rparr>)"

text \<open>The jump: on touch devices the jump flag, on desktop the space key, when on the ground.\<close>

definition player_jump :: "frame_input \<Rightarrow> player \<Rightarrow> player" where
  "player_jump inp p =
     (if (if isMobile inp then isJumping inp else keySpace inp) \<and> isOnGround p
      then p\<lparr>velY := JUMP_FORCE, isOnGround := False\<rparr>
      else p)"

definition player_advance :: "frame_input \<Rightarrow> player \<Rightarrow> player" where
  "player_advance inp p =
     (let p1 = player_move inp p;
          p2 = player_ground (delta inp) p1;
          p3 = player_jump inp p2
      in p3\<lparr>wasOnGround := isOnGround p3\<rparr>)"

text \<open>What happens to the player over a session: frames, and mouse moves between them.\<close>

datatype player_event = Frame frame_input | MouseMove real

fun player_event_step :: "player \<Rightarrow> player_event \<Rightarrow> player" where
  "player_event_step p (Frame inp) = player_advance inp p"
| "player_event_step p (MouseMove dx) = handleMouseMove dx p"

definition player_run :: "player \<Rightarrow> player_event list \<Rightarrow> player" where
  "player_run p evs = foldl player_event_step p evs"

text \<open>The player as the scene effect sets it up: at \<^verbatim>\<open>(0, getHeight(0, 5) + 1, 5)\<close>.\<close>

definition initial_player :: player where
  "initial_player = \<lparr>pos = V3 0 (getHeight 0 5 + 1) 5, rotY = 0, velY = 0,
                      isOnGround = True, wasOnGround = True\<rparr>"

section \<open>The particle system\<close>

text \<open>
  environment.ts, \<^verbatim>\<open>ParticleSystem\<close>. A particle is a slot of the pool; the pool is
  built once by the constructor and is the list \<^verbatim>\<open>this.particles\<close>.
  \<^verbatim>\<open>Math.random()\<close> is a stream of numbers of \<open>[0, 1)\<close> that the host supplies: a
  function from the position in the stream to the number drawn there, read at a cursor
  that every call advances by one.
\<close>

type_synonym rng = "nat \<Rightarrow> real"

record rgb =
  red :: real
  green :: real
  blue :: real

definition color_lerp :: "rgb \<Rightarrow> rgb \<Rightarrow> real \<Rightarrow> rgb" where
  "color_lerp a b alpha = \<lparr>red = red a + (red b - red a) * alpha,
                           green = green a + (green b - green a) * alpha,
                           blue = blue a + (blue b - blue a) * alpha\<rparr>"

text \<open>\<^verbatim>\<open>THREE.MathUtils.lerp(x, y, t) = (1 - t) * x + t * y\<close>.\<close>

definition lerp :: "real \<Rightarrow> real \<Rightarrow> real \<Rightarrow> real" where
  "lerp x y t = (1 - t) * x + t * y"

record particle =
  active :: bool
  position :: vec3
  velocity :: vec3
  life :: real
  maxLife :: real
  psize :: real
  startSize :: real
  endSize :: real
  color :: rgb
  startColor :: rgb
  endColor :: rgb
  rotation :: real
  rotationSpeed :: real

text \<open>A field of the emitter options that is a single value or a pair of bounds.\<close>

datatype 'a one_or_two = One 'a | Two 'a 'a

record ParticleEmitterOptions =
  o_position :: vec3
  o_count :: int
  o_color :: "rgb one_or_two option"
  o_velocity :: "vec3 option"
  o_velocityRandomness :: "real option"
  o_size :: "real one_or_two option"
  o_life :: "real one_or_two option"
  o_gravity :: "real option"
  o_rotationSpeed :: "real one_or_two option"

text \<open>\<^verbatim>\<open>Array.isArray(v) ? lerp(v[0], v[1], Math.random()) : v || dflt\<close>.\<close>

definition sample_range :: "real one_or_two option \<Rightarrow> real \<Rightarrow> rng \<Rightarrow> nat \<Rightarrow> real \<times> nat" where
  "sample_range v dflt rnd n =
     (case v of
        Some (Two a b) \<Rightarrow> (lerp a b (rnd n), n + 1)
      | Some (One a) \<Rightarrow> (if a = 0 then dflt else a, n)
      | None \<Rightarrow> (dflt, n))"

definition white :: rgb where
  "white = \<lparr>red = 1, green = 1, blue = 1\<rparr>"

definition initParticle :: "particle \<Rightarrow> ParticleEmitterOptions \<Rightarrow> rng \<Rightarrow> nat \<Rightarrow> particle \<times> nat" where
  "initParticle p opts rnd n =
     (let baseVelocity = (case o_velocity opts of Some v \<Rightarrow> v | None \<Rightarrow> V3 0 0 0);
          vr = (case o_velocityRandomness opts of Some r \<Rightarrow> r | None \<Rightarrow> 0);
          vel = vadd baseVelocity
                  (multiplyScalar (V3 (rnd n - 0.5) (rnd (n + 1) - 0.5) (rnd (n + 2) - 0.5)) vr);
          (ml, n1) = sample_range (o_life opts) 1 rnd (n + 3);
          (sz, n2) = sample_range (o_size opts) 1 rnd n1;
          (col, n3) = (case o_color opts of
                         Some (Two a b) \<Rightarrow> (color_lerp a b (rnd n2), n2 + 1)
                       | Some (One a) \<Rightarrow> (a, n2)
                       | None \<Rightarrow> (white, n2));
          rot = rnd n3 * pi * 2;
          (rs, n4) = sample_range (o_rotationSpeed opts) 0 rnd (n3 + 1)
      in (p\<lparr>active := True, position := o_position opts, velocity := vel,
             maxLife := ml, life := ml, startSize := sz, endSize := 0, psize := sz,
             startColor := col, endColor := col, color := col,
             rotation := rot, rotationSpeed := rs\<rparr>, n4))"

text \<open>
  \<^verbatim>\<open>emit\<close>: the loop runs over the slots while \<^verbatim>\<open>created < options.count\<close>; an inactive
  slot is initialised and counted, an active one is passed over.
\<close>

fun emit_loop :: "particle list \<Rightarrow> ParticleEmitterOptions \<Rightarrow> int \<Rightarrow> rng \<Rightarrow> nat \<Rightarrow> particle list \<times> nat" where
  "emit_loop [] opts created rnd n = ([], n)"
| "emit_loop (p # ps) opts created rnd n =
     (if created < o_count opts then
        (if \<not> active p then
           (let (p', n') = initParticle p opts rnd n;
                (ps', n'') = emit_loop ps opts (created + 1) rnd n'
            in (p' # ps', n''))
         else
           (let (ps', n'') = emit_loop ps opts created rnd n
            in (p # ps', n'')))
      else (p # ps, n))"

definition emit :: "particle list \<Rightarrow> ParticleEmitterOptions \<Rightarrow> rng \<Rightarrow> nat \<Rightarrow> particle list \<times> nat" where
  "emit particles opts rnd n = emit_loop particles opts 0 rnd n"

text \<open>The slot the constructor pushes, \<^verbatim>\<open>count\<close> times.\<close>

definition black :: rgb where
  "black = \<lparr>red = 0, green = 0, blue = 0\<rparr>"

definition fresh_particle :: particle where
  "fresh_particle = \<lparr>active = False, position = V3 0 0 0, velocity = V3 0 0 0, life = 0,
     maxLife = 1, psize = 1, startSize = 1, endSize = 0, color = white, startColor = white,
     endColor = white, rotation = 0, rotationSpeed = 0\<rparr>"

definition new_pool :: "nat \<Rightarrow> particle list" where
  "new_pool count = replicate count fresh_particle"

text \<open>
  \<^verbatim>\<open>update\<close>: an active particle loses \<^verbatim>\<open>delta\<close> of life and is deactivated at zero;
  otherwise gravity, position, size, colour and rotation are advanced. The instance
  matrices written for the renderer are not part of the model.
\<close>

definition update_particle :: "real \<Rightarrow> real \<Rightarrow> particle \<Rightarrow> particle" where
  "update_particle gravity dt p =
     (if \<not> active p then p
      else (let l = life p - dt
            in if l \<le> 0 then p\<lparr>life := l, active := False\<rparr>
               else (let vel = (velocity p)\<lparr>vy := vy (velocity p) - gravity * dt\<rparr>;
                         lifeRatio = l / maxLife p
                     in p\<lparr>life := l, velocity := vel,
                          position := vadd (position p) (multiplyScalar vel dt),
                          psize := lerp (endSize p) (startSize p) lifeRatio,
                          color := color_lerp (startColor p) (endColor p) (1 - lifeRatio),
                          rotation := rotation p + rotationSpeed p * dt\<rparr>)))"

definition update_particles :: "real \<Rightarrow> real \<Rightarrow> particle list \<Rightarrow> particle list" where
  "update_particles gravity dt ps = map (update_particle gravity dt) ps"

text \<open>Counting slots: the inactive slots of a pool, and the slots a call activated.\<close>

definition inactive_count :: "particle list \<Rightarrow> nat" where
  "inactive_count ps = length (filter (\<lambda>p. \<not> active p) ps)"

definition activated :: "particle list \<Rightarrow> particle list \<Rightarrow> nat" where
  "activated ps ps' = length (filter (\<lambda>(p, p'). \<not> active p \<and> active p') (zip ps ps'))"

section \<open>The day and night clock\<close>

definition DAY_NIGHT_CYCLE_SECONDS :: real where "DAY_NIGHT_CYCLE_SECONDS = 300"
definition START_TIME_OFFSET :: real where "START_TIME_OFFSET = DAY_NIGHT_CYCLE_SECONDS * 0.35"

text \<open>JavaScript's \<^verbatim>\<open>a % 1.0\<close>: the remainder has the sign of \<open>a\<close>.\<close>

definition rem1 :: "real \<Rightarrow> real" where
  "rem1 a = a - of_int (if 0 \<le> a then \<lfloor>a\<rfloor> else \<lceil>a\<rceil>)"

definition timeOfDay :: "real \<Rightarrow> real" where
  "timeOfDay elapsed = rem1 ((elapsed + START_TIME_OFFSET) / DAY_NIGHT_CYCLE_SECONDS)"

text \<open>The keyframe table of constants.ts, with the time and the sun intensity of each row.\<close>

definition keyframes :: "(real \<times> real) list" where
  "keyframes = [(0, 0.0), (0.23, 0.0), (0.25, 0.5), (0.30, 0.9),
                (0.70, 0.9), (0.75, 0.5), (0.77, 0.0), (1.0, 0.0)]"

text \<open>The first pair of neighbouring keyframes that brackets the time of day, if any.\<close>

fun find_keys :: "real \<Rightarrow> (real \<times> real) list \<Rightarrow> ((real \<times> real) \<times> (real \<times> real)) option" where
  "find_keys t (a # b # ks) =
     (if t \<ge> fst a \<and> t < fst b then Some (a, b) else find_keys t (b # ks))"
| "find_keys t ks = None"

definition dayFactor :: "real \<Rightarrow> real" where
  "dayFactor t =
     (case find_keys t keyframes of
        None \<Rightarrow> 0
      | Some (startKey, endKey) \<Rightarrow>
          (let duration = fst endKey - fst startKey;
               alpha = (t - fst startKey) / duration;
               sunIntensity = lerp (snd startKey) (snd endKey) alpha;
               nightFactor = 1.0 - (sunIntensity / 0.9)
           in 1.0 - nightFactor))"

text \<open>\<^verbatim>\<open>THREE.MathUtils.smoothstep(x, min, max)\<close>.\<close>

definition smoothstep :: "real \<Rightarrow> real \<Rightarrow> real \<Rightarrow> real" where
  "smoothstep x mn mx =
     (if x \<le> mn then 0 else if x \<ge> mx then 1
      else (let t = (x - mn) / (mx - mn) in t * t * (3 - 2 * t)))"

definition birdOpacity :: "real \<Rightarrow> real" where
  "birdOpacity t = (if dayFactor t > 0.1 then smoothstep (dayFactor t) 0.1 0.4 else 0)"

section \<open>The villager routine\<close>

text \<open>
  A villager is the \<^verbatim>\<open>userData\<close> of its scene object together with the object's position.
  \<^verbatim>\<open>prevState\<close> is absent until the first interaction saves a state. The yaw, the limbs
  and the head are written by the frame but read by nothing modelled here; they are left
  out of the record.
\<close>

datatype villager_state =
  IDLE | WANDERING | GOING_TO_WORK | WORKING | GOING_HOME | SLEEPING | LOOKING_AT_PLAYER

datatype VillagerProfession = farmer | librarian | blacksmith | nitwit

type_synonym chunk_id = "int \<times> int"

record villager =
  v_id :: nat
  v_chunkId :: chunk_id
  v_position :: vec3
  v_state :: villager_state
  v_prevState :: "villager_state option"
  v_stateTimer :: real
  v_targetPosition :: "vec3 option"
  v_profession :: VillagerProfession
  v_homePoint :: vec3
  v_workPoint :: "vec3 option"
  v_velocityY :: real
  v_isOnGround :: bool

definition VILLAGER_INTERACTION_RADIUS :: real where "VILLAGER_INTERACTION_RADIUS = 8"

text \<open>"Villager physics to keep them grounded": skipped for a sleeping villager.\<close>

definition villager_physics :: "real \<Rightarrow> villager \<Rightarrow> villager" where
  "villager_physics dt v =
     (if v_state v \<noteq> SLEEPING then
        (let groundY = getHeight (vx (v_position v)) (vz (v_position v));
             vel = v_velocityY v - GRAVITY * dt;
             y = vy (v_position v) + vel * dt
         in if y < groundY
            then v\<lparr>v_position := (v_position v)\<lparr>vy := groundY\<rparr>, v_velocityY := 0, v_isOnGround := True\<rparr>
            else v\<lparr>v_position := (v_position v)\<lparr>vy := y\<rparr>, v_velocityY := vel, v_isOnGround := False\<rparr>)
      else v)"

text \<open>"High-level state changes based on time".\<close>

definition villager_time_gate :: "bool \<Rightarrow> rng \<Rightarrow> nat \<Rightarrow> villager \<Rightarrow> villager \<times> nat" where
  "villager_time_gate isDayTime rnd n v =
     (let v1 = (if \<not> isDayTime \<and> v_state v \<noteq> SLEEPING \<and> v_state v \<noteq> GOING_HOME
                then v\<lparr>v_state := GOING_HOME, v_targetPosition := Some (v_homePoint v)\<rparr>
                else v)
      in if isDayTime \<and> v_state v1 = SLEEPING
         then (v1\<lparr>v_state := IDLE, v_stateTimer := rnd n * 5 + 3\<rparr>, n + 1)
         else (v1, n))"

text \<open>"Player interaction overrides other states".\<close>

definition villager_interaction :: "real \<Rightarrow> rng \<Rightarrow> nat \<Rightarrow> villager \<Rightarrow> villager \<times> nat" where
  "villager_interaction distanceToPlayer rnd n v =
     (if distanceToPlayer < VILLAGER_INTERACTION_RADIUS \<and> v_state v \<noteq> LOOKING_AT_PLAYER
      then (v\<lparr>v_prevState := Some (v_state v), v_state := LOOKING_AT_PLAYER,
               v_targetPosition := None\<rparr>, n)
      else if distanceToPlayer \<ge> VILLAGER_INTERACTION_RADIUS \<and> v_state v = LOOKING_AT_PLAYER
      then (v\<lparr>v_state := (case v_prevState v of Some s \<Rightarrow> s | None \<Rightarrow> IDLE),
               v_stateTimer := rnd n * 2 + 1\<rparr>, n + 1)
      else (v, n))"

text \<open>The wander branch: a random target near the villager and a timer from its distance.\<close>

definition villager_wander :: "rng \<Rightarrow> nat \<Rightarrow> villager \<Rightarrow> villager \<times> nat" where
  "villager_wander rnd n v =
     (let angle = rnd n * pi * 2;
          wanderDist = rnd (n + 1) * 10 + 5
      in (v\<lparr>v_state := WANDERING,
             v_targetPosition := Some (V3 (vx (v_position v) + cos angle * wanderDist) 0
                                          (vz (v_position v) + sin angle * wanderDist)),
             v_stateTimer := wanderDist / 1.5 + (rnd (n + 2) * 2)\<rparr>, n + 3))"

text \<open>"Timer-based state changes for daytime".\<close>

definition villager_timer :: "bool \<Rightarrow> rng \<Rightarrow> nat \<Rightarrow> villager \<Rightarrow> villager \<times> nat" where
  "villager_timer isDayTime rnd n v =
     (if v_stateTimer v \<le> 0 \<and> isDayTime then
        (if v_state v = IDLE \<or> v_state v = WANDERING then
           (if v_profession v = farmer \<and> v_workPoint v \<noteq> None then
              (if rnd n < 0.5
               then (v\<lparr>v_state := GOING_TO_WORK, v_targetPosition := v_workPoint v\<rparr>, n + 1)
               else villager_wander rnd (n + 1) v)
            else villager_wander rnd n v)
         else (v\<lparr>v_state := IDLE, v_stateTimer := rnd n * 8 + 5\<rparr>, n + 1))
      else (v, n))"

text \<open>
  "State actions": the movement states steer to the target at 1.5 units a second and, on
  arrival, run the three tests of the source one after the other; a sleeping villager
  is eased to its home point.
\<close>

definition villager_arrive :: "rng \<Rightarrow> nat \<Rightarrow> villager \<Rightarrow> villager \<times> nat" where
  "villager_arrive rnd n v =
     (let v0 = v\<lparr>v_targetPosition := None\<rparr>;
          v1 = (if v_state v0 = GOING_HOME then v0\<lparr>v_state := SLEEPING\<rparr> else v0);
          (v2, n2) = (if v_state v1 = GOING_TO_WORK
                      then (v1\<lparr>v_state := WORKING, v_stateTimer := rnd n * 10 + 10\<rparr>, n + 1)
                      else (v1, n))
      in if v_state v2 = WANDERING
         then (v2\<lparr>v_state := IDLE, v_stateTimer := rnd n2 * 5 + 3\<rparr>, n2 + 1)
         else (v2, n2))"

definition villager_act :: "real \<Rightarrow> rng \<Rightarrow> nat \<Rightarrow> villager \<Rightarrow> villager \<times> nat" where
  "villager_act dt rnd n v =
     (if v_state v = GOING_HOME \<or> v_state v = GOING_TO_WORK \<or> v_state v = WANDERING then
        (case v_targetPosition v of
           None \<Rightarrow> (v, n)
         | Some target \<Rightarrow>
             (let direction = (vsub target (v_position v))\<lparr>vy := 0\<rparr>
              in if lengthSq direction > 1
                 then (let d = normalize direction
                       in (v\<lparr>v_position := (v_position v)
                                \<lparr>vx := vx (v_position v) + vx d * 1.5 * dt,
                                 vz := vz (v_position v) + vz d * 1.5 * dt\<rparr>\<rparr>, n))
                 else villager_arrive rnd n v))
      else if v_state v = SLEEPING
      then (v\<lparr>v_position := vlerp (v_position v) (v_homePoint v) dt\<rparr>, n)
      else (v, n))"

text \<open>One villager in one frame. \<open>tod\<close> is the frame's time of day, \<open>playerPos\<close>
  the character's position when the villagers are advanced (before the player moves).\<close>

definition villager_update :: "real \<Rightarrow> real \<Rightarrow> vec3 \<Rightarrow> rng \<Rightarrow> nat \<Rightarrow> villager \<Rightarrow> villager \<times> nat" where
  "villager_update dt tod playerPos rnd n v =
     (let v0 = v\<lparr>v_stateTimer := v_stateTimer v - dt\<rparr>;
          v1 = villager_physics dt v0;
          distanceToPlayer = distanceTo (v_position v1) playerPos;
          isDayTime = (tod > 0.28 \<and> tod < 0.76);
          (v2, n2) = villager_time_gate isDayTime rnd n v1;
          (v3, n3) = villager_interaction distanceToPlayer rnd n2 v2;
          (v4, n4) = villager_timer isDayTime rnd n3 v3
      in villager_act dt rnd n4 v4)"

fun villagers_frame :: "real \<Rightarrow> real \<Rightarrow> vec3 \<Rightarrow> rng \<Rightarrow> nat \<Rightarrow> villager list \<Rightarrow> villager list \<times> nat" where
  "villagers_frame dt tod playerPos rnd n [] = ([], n)"
| "villagers_frame dt tod playerPos rnd n (v # vs) =
     (let (v', n') = villager_update dt tod playerPos rnd n v;
          (vs', n'') = villagers_frame dt tod playerPos rnd n' vs
      in (v' # vs', n''))"

section \<open>Seeded pseudo-random numbers and trees\<close>

text \<open>
  utils.ts, \<^verbatim>\<open>pseudoRandom\<close>: the fractional part of \<^verbatim>\<open>Math.sin(seed) * 10000\<close>
  (the increment of \<^verbatim>\<open>seed++\<close> is never read).
\<close>

definition pseudoRandom :: "real \<Rightarrow> real" where
  "pseudoRandom seed = (let x = sin seed * 10000 in x - of_int \<lfloor>x\<rfloor>)"

definition NEST_CHANCE :: real where "NEST_CHANCE = 0.3"

text \<open>
  world.ts, \<^verbatim>\<open>createNest\<close>: twenty twigs on a ring, each placed with five draws of
  \<^verbatim>\<open>Math.random()\<close>. A twig is its position and its rotation.
\<close>

record twig =
  twig_position :: vec3
  twig_rotation :: vec3

definition createTwig :: "rng \<Rightarrow> nat \<Rightarrow> twig" where
  "createTwig rnd n =
     (let radius = 0.8; height = 0.5;
          angle = rnd n * pi * 2;
          y = (rnd (n + 1) - 0.5) * height
      in \<lparr>twig_position = V3 (cos angle * radius) y (sin angle * radius),
          twig_rotation = V3 ((rnd (n + 4) - 0.5) * 0.2)
                             (angle + pi / 2 + (rnd (n + 2) - 0.5) * 0.5)
                             ((rnd (n + 3) - 0.5) * 0.2)\<rparr>)"

definition createNest :: "rng \<Rightarrow> nat \<Rightarrow> twig list \<times> nat" where
  "createNest rnd n = (map (\<lambda>i. createTwig rnd (n + 5 * i)) [0..<20], n + 100)"

record nest =
  nest_position :: vec3
  nest_twigs :: "twig list"

record tree =
  t_position :: vec3
  t_height :: real
  t_trunkWidth :: real
  t_leaves :: "vec3 list"
  t_nest :: "nest option"

text \<open>The loops of \<^verbatim>\<open>createTree\<close> step a JavaScript number by one up to a bound.\<close>

function steps_below :: "real \<Rightarrow> real \<Rightarrow> real list" where
  "steps_below y hi = (if y < hi then y # steps_below (y + 1) hi else [])"
  by pat_completeness auto
termination
  by (relation "measure (\<lambda>(y, hi). nat \<lceil>hi - y\<rceil>)") (auto, linarith)

function steps_upto :: "real \<Rightarrow> real \<Rightarrow> real list" where
  "steps_upto y hi = (if y \<le> hi then y # steps_upto (y + 1) hi else [])"
  by pat_completeness auto
termination
  by (relation "measure (\<lambda>(y, hi). nat (\<lfloor>hi - y\<rfloor> + 1))") (auto, linarith)

text \<open>The leaf cells of the canopy, in the order the three nested loops push them.\<close>

definition canopy_cells :: "real \<Rightarrow> real \<Rightarrow> real \<Rightarrow> real \<Rightarrow> vec3 list" where
  "canopy_cells seed canopyBaseY canopyHeight canopyRadius =
     concat (map (\<lambda>y.
       concat (map (\<lambda>lx.
         concat (map (\<lambda>lz.
           (let dist = sqrt (lx * lx + lz * lz + ((y - canopyBaseY - canopyHeight / 2) * 1.5)\<^sup>2)
            in if dist < canopyRadius \<and> pseudoRandom (seed + lx * 13 + y * 31 + lz * 53) > 0.2
               then [V3 lx y lz] else []))
           (steps_upto (- canopyRadius) canopyRadius)))
         (steps_upto (- canopyRadius) canopyRadius)))
       (steps_below canopyBaseY (canopyBaseY + canopyHeight)))"

text \<open>
  The nest block of \<^verbatim>\<open>createTree\<close>, entered when the tree has leaves: the seeded gate,
  the test on the number of leaf cells, and the choice of the leaf that carries the nest.
\<close>

definition place_nest :: "real \<Rightarrow> real \<Rightarrow> real \<Rightarrow> vec3 list \<Rightarrow> rng \<Rightarrow> nat \<Rightarrow> nest option \<times> nat" where
  "place_nest seed canopyBaseY canopyHeight leafPositions rnd n =
     (if pseudoRandom (seed + 57) < NEST_CHANCE \<and> length leafPositions > 5 then
        (let (twigs, n') = createNest rnd n;
             suitableLeaves = filter (\<lambda>p. vy p > canopyBaseY + 1 \<and> vy p < canopyBaseY + canopyHeight - 1)
                                leafPositions;
             targetLeafPos =
               (if length suitableLeaves > 0
                then suitableLeaves ! nat \<lfloor>pseudoRandom (seed + 61) * real (length suitableLeaves)\<rfloor>
                else leafPositions ! nat \<lfloor>pseudoRandom (seed + 61) * real (length leafPositions)\<rfloor>)
         in (Some \<lparr>nest_position = targetLeafPos\<lparr>vy := vy targetLeafPos + 0.5\<rparr>,
                    nest_twigs = twigs\<rparr>, n'))
      else (None, n))"

definition createTree :: "real \<Rightarrow> real \<Rightarrow> real \<Rightarrow> rng \<Rightarrow> nat \<Rightarrow> tree \<times> nat" where
  "createTree x z seed rnd n =
     (let trunkHeight = 5 + pseudoRandom (seed + 1) * 4;
          trunkWidth = 0.9 + pseudoRandom (seed + 2) * 0.4;
          canopyBaseY = trunkHeight - 2;
          canopyHeight = 3 + pseudoRandom (seed + 3) * 2;
          canopyRadius = 2 + pseudoRandom (seed + 4) * 1.5;
          leafPositions = canopy_cells seed canopyBaseY canopyHeight canopyRadius;
          (nst, n') = (if length leafPositions > 0
                       then place_nest seed canopyBaseY canopyHeight leafPositions rnd n
                       else (None, n))
      in (\<lparr>t_position = V3 x 0 z, t_height = trunkHeight, t_trunkWidth = trunkWidth,
           t_leaves = leafPositions, t_nest = nst\<rparr>, n'))"

text \<open>
  utils.ts, \<^verbatim>\<open>findNewLandingSpot\<close>: a random leaf, lowered by 0.8; the top of the trunk
  when the tree has no leaves.
\<close>

definition findNewLandingSpot :: "tree \<Rightarrow> rng \<Rightarrow> nat \<Rightarrow> vec3 \<times> nat" where
  "findNewLandingSpot t rnd n =
     (if length (t_leaves t) = 0 then (V3 0 (t_height t) 0, n)
      else (let leafIndex = nat \<lfloor>rnd n * real (length (t_leaves t))\<rfloor>;
                leafPosition = t_leaves t ! leafIndex
            in (leafPosition\<lparr>vy := vy leafPosition - 0.8\<rparr>, n + 1)))"

section \<open>The bird flight AI\<close>

definition BIRD_MAX_SPEED :: real where "BIRD_MAX_SPEED = 4.0"
definition BIRD_PERCEPTION_RADIUS :: real where "BIRD_PERCEPTION_RADIUS = 20"
definition BIRD_SEPARATION_DISTANCE :: real where "BIRD_SEPARATION_DISTANCE = 5"
definition BIRD_ALIGNMENT_WEIGHT :: real where "BIRD_ALIGNMENT_WEIGHT = 1.0"
definition BIRD_COHESION_WEIGHT :: real where "BIRD_COHESION_WEIGHT = 1.0"
definition BIRD_SEPARATION_WEIGHT :: real where "BIRD_SEPARATION_WEIGHT = 1.5"

datatype bird_state = SITTING | FLYING
datatype flight_mode = NONE | CIRCLING | EXPLORING | SWOOPING | RETURNING
datatype swoop_phase = DIVE | PULL_UP

text \<open>
  A bird is the \<^verbatim>\<open>userData\<close> of its scene object together with the object's position.
  \<open>b_treeWorld\<close> is what \<^verbatim>\<open>homeTree.getWorldPosition\<close> returns: the position of the
  chunk group plus the tree's position in it, fixed while the bird lives. \<open>b_nest\<close>
  says whether \<^verbatim>\<open>data.nest\<close> is set. The orientation and the wings of the bird are
  written by the frame and read by nothing modelled here; they are left out.
\<close>

record bird =
  b_id :: nat
  b_chunkId :: chunk_id
  b_position :: vec3
  b_state :: bird_state
  b_flightMode :: flight_mode
  b_stateTimer :: real
  b_homeTree :: tree
  b_treeWorld :: vec3
  b_nest :: bool
  b_landingSpot :: vec3
  b_flapOffset :: real
  b_velocity :: vec3
  b_circleAngle :: real
  b_circleRadius :: real
  b_circleAltitude :: real
  b_swoopTarget :: vec3
  b_swoopPhase :: swoop_phase
  b_audioPlaying :: bool

text \<open>The perch a sitting bird is expected at: the landing spot on its tree, raised by
  0.2 when the bird has a nest.\<close>

definition expectedPosition :: "bird \<Rightarrow> vec3" where
  "expectedPosition b =
     (let e = vadd (b_treeWorld b) (b_landingSpot b)
      in if b_nest b then e\<lparr>vy := vy e + 0.2\<rparr> else e)"

text \<open>Entering the circling mode: four draws, for the timer, the angle, the radius and
  the altitude.\<close>

definition start_circling :: "rng \<Rightarrow> nat \<Rightarrow> bird \<Rightarrow> bird \<times> nat" where
  "start_circling rnd n b =
     (b\<lparr>b_flightMode := CIRCLING, b_stateTimer := rnd n * 8 + 8,
        b_circleAngle := rnd (n + 1) * pi * 2, b_circleRadius := rnd (n + 2) * 10 + 10,
        b_circleAltitude := rnd (n + 3) * 5 + 5\<rparr>, n + 4)"

text \<open>\<^verbatim>\<open>case 'SITTING'\<close> of the bird loop, after the timer has been decreased.\<close>

definition bird_sitting :: "rng \<Rightarrow> nat \<Rightarrow> bird \<Rightarrow> bird \<times> nat" where
  "bird_sitting rnd n b =
     (if distanceTo (b_position b) (expectedPosition b) > 1.5
      then (b\<lparr>b_state := FLYING, b_flightMode := RETURNING\<rparr>, n)
      else if b_stateTimer b \<le> 0 then
        (let b1 = b\<lparr>b_state := FLYING\<rparr>;
             rand = rnd n
         in if rand < 0.5 then start_circling rnd (n + 1) b1
            else if rand < 0.85
            then (b1\<lparr>b_flightMode := EXPLORING, b_stateTimer := rnd (n + 1) * 10 + 15\<rparr>, n + 2)
            else (b1\<lparr>b_flightMode := SWOOPING,
                     b_swoopTarget := V3 (vx (b_treeWorld b) + (rnd (n + 1) - 0.5) * 20)
                                         (vy (b_treeWorld b) - 1)
                                         (vz (b_treeWorld b) + (rnd (n + 2) - 0.5) * 20),
                     b_swoopPhase := DIVE\<rparr>, n + 3))
      else if \<not> b_audioPlaying b
      then (if rnd n < 0.005 then b\<lparr>b_audioPlaying := True\<rparr> else b, n + 1)
      else (b, n))"

text \<open>Leaving a timed flight: the bird returns, to a new landing spot unless it has a nest.\<close>

definition start_returning :: "rng \<Rightarrow> nat \<Rightarrow> bird \<Rightarrow> bird \<times> nat" where
  "start_returning rnd n b =
     (let b1 = b\<lparr>b_flightMode := RETURNING\<rparr>
      in if \<not> b_nest b
         then (let (spot, n') = findNewLandingSpot (b_homeTree b) rnd n
               in (b1\<lparr>b_landingSpot := spot\<rparr>, n'))
         else (b1, n))"

definition bird_returning :: "real \<Rightarrow> rng \<Rightarrow> nat \<Rightarrow> bird \<Rightarrow> bird \<times> nat" where
  "bird_returning dt rnd n b =
     (let landingWorldPos = expectedPosition b;
          approachPos = vadd landingWorldPos (V3 0 2 0);
          distanceToTarget = distanceTo (b_position b) landingWorldPos;
          b1 = (if distanceToTarget > 2.5
                then b\<lparr>b_position := vlerp (b_position b) approachPos (dt * 1.5)\<rparr>
                else b\<lparr>b_position := vlerp (b_position b) landingWorldPos (dt * 3.0)\<rparr>)
      in if distanceToTarget < 0.2
         then (b1\<lparr>b_position := landingWorldPos, b_state := SITTING,
                  b_stateTimer := rnd (n + 2) * 10 + 5\<rparr>, n + 3)
         else (b1, n))"

definition bird_circling :: "real \<Rightarrow> rng \<Rightarrow> nat \<Rightarrow> bird \<Rightarrow> bird \<times> nat" where
  "bird_circling dt rnd n b =
     (let treePos = b_treeWorld b;
          a = b_circleAngle b + dt * 1.5;
          targetPosition = V3 (vx treePos + cos a * b_circleRadius b)
                              (vy treePos + t_height (b_homeTree b) / 2 + b_circleAltitude b)
                              (vz treePos + sin a * b_circleRadius b);
          b1 = b\<lparr>b_circleAngle := a, b_position := vlerp (b_position b) targetPosition (dt * 2.0)\<rparr>
      in if b_stateTimer b \<le> 0 then start_returning rnd n b1 else (b1, n))"

definition bird_swooping :: "real \<Rightarrow> rng \<Rightarrow> nat \<Rightarrow> bird \<Rightarrow> bird \<times> nat" where
  "bird_swooping dt rnd n b =
     (if b_swoopPhase b = DIVE then
        (let b1 = b\<lparr>b_position := vlerp (b_position b) (b_swoopTarget b) (dt * 3.0)\<rparr>
         in if distanceTo (b_position b1) (b_swoopTarget b1) < 2
            then (b1\<lparr>b_swoopPhase := PULL_UP,
                     b_swoopTarget := (b_swoopTarget b1)\<lparr>vy := vy (b_swoopTarget b1) + 15\<rparr>\<rparr>, n)
            else (b1, n))
      else
        (let b1 = b\<lparr>b_position := vlerp (b_position b) (b_swoopTarget b) (dt * 2.5)\<rparr>
         in if distanceTo (b_position b1) (b_swoopTarget b1) < 3
            then start_circling rnd n b1
            else (b1, n)))"

text \<open>\<^verbatim>\<open>Vector3.clampLength(min, max)\<close>.\<close>

definition clampLength :: "vec3 \<Rightarrow> real \<Rightarrow> real \<Rightarrow> vec3" where
  "clampLength a mn mx =
     (let l = vlength a; d = (if l = 0 then 1 else l)
      in multiplyScalar (multiplyScalar a (1 / d)) (max mn (min mx l)))"

text \<open>
  The flocking sums over the other birds that are exploring and within the perception
  radius: the sum of their velocities, the sum of their positions, the sum of the pushes
  away from those closer than the separation distance, and their number.
\<close>

fun flock_sums :: "bird \<Rightarrow> bird list \<Rightarrow> vec3 \<times> vec3 \<times> vec3 \<times> nat \<Rightarrow> vec3 \<times> vec3 \<times> vec3 \<times> nat" where
  "flock_sums b [] acc = acc"
| "flock_sums b (other # others) (alignment, cohesion, separation, neighborCount) =
     (if b_state other = FLYING \<and> b_flightMode other = EXPLORING then
        (let dist = distanceTo (b_position b) (b_position other)
         in if dist > 0 \<and> dist < BIRD_PERCEPTION_RADIUS then
              flock_sums b others
                (vadd alignment (b_velocity other), vadd cohesion (b_position other),
                 (if dist < BIRD_SEPARATION_DISTANCE
                  then vadd separation
                         (multiplyScalar (normalize (vsub (b_position b) (b_position other))) (1 / dist))
                  else separation),
                 neighborCount + 1)
            else flock_sums b others (alignment, cohesion, separation, neighborCount))
      else flock_sums b others (alignment, cohesion, separation, neighborCount))"

definition steer :: "vec3 \<Rightarrow> vec3 \<Rightarrow> real \<Rightarrow> vec3" where
  "steer a vel w = multiplyScalar (vsub (multiplyScalar (normalize a) BIRD_MAX_SPEED) vel) w"

definition bird_exploring :: "real \<Rightarrow> rng \<Rightarrow> nat \<Rightarrow> bird list \<Rightarrow> bird \<Rightarrow> bird \<times> nat" where
  "bird_exploring dt rnd n others b =
     (let (alignment, cohesion, separation, neighborCount) =
            flock_sums b others (V3 0 0 0, V3 0 0 0, V3 0 0 0, 0);
          (vel1, n1) =
            (if neighborCount > 0 then
               (let k = 1 / real neighborCount;
                    al = steer (multiplyScalar alignment k) (b_velocity b) BIRD_ALIGNMENT_WEIGHT;
                    co = steer (vsub (multiplyScalar cohesion k) (b_position b)) (b_velocity b)
                           BIRD_COHESION_WEIGHT;
                    se = steer (multiplyScalar separation k) (b_velocity b) BIRD_SEPARATION_WEIGHT
                in (vadd (vadd (vadd (b_velocity b) al) co) se, n))
             else
               (let wanderVector = V3 (rnd n - 0.5) ((rnd (n + 1) - 0.5) * 0.3) (rnd (n + 2) - 0.5)
                in (vadd (b_velocity b) (multiplyScalar (normalize wanderVector) 0.3), n + 3)));
          (vel2, n2) = (if lengthSq vel1 < 0.1
                        then (V3 (rnd n1 - 0.5) 0 (rnd (n1 + 1) - 0.5), n1 + 2)
                        else (vel1, n1));
          vel3 = clampLength vel2 (BIRD_MAX_SPEED * 0.6) BIRD_MAX_SPEED;
          b1 = b\<lparr>b_velocity := vel3, b_position := vadd (b_position b) (multiplyScalar vel3 dt)\<rparr>
      in if b_stateTimer b \<le> 0 then start_returning rnd n2 b1 else (b1, n2))"

text \<open>One bird in one frame: the timer is decreased, then the state is dispatched.
  \<open>others\<close> are the other birds as the loop has left them so far.\<close>

definition bird_update :: "real \<Rightarrow> rng \<Rightarrow> nat \<Rightarrow> bird list \<Rightarrow> bird \<Rightarrow> bird \<times> nat" where
  "bird_update dt rnd n others b =
     (let b0 = b\<lparr>b_stateTimer := b_stateTimer b - dt\<rparr>
      in case b_state b0 of
           SITTING \<Rightarrow> bird_sitting rnd n b0
         | FLYING \<Rightarrow>
             (case b_flightMode b0 of
                RETURNING \<Rightarrow> bird_returning dt rnd n b0
              | CIRCLING \<Rightarrow> bird_circling dt rnd n b0
              | SWOOPING \<Rightarrow> bird_swooping dt rnd n b0
              | EXPLORING \<Rightarrow> bird_exploring dt rnd n others b0
              | NONE \<Rightarrow> (b0, n)))"

fun birds_loop :: "real \<Rightarrow> rng \<Rightarrow> nat \<Rightarrow> bird list \<Rightarrow> bird list \<Rightarrow> bird list \<times> nat" where
  "birds_loop dt rnd n done [] = (done, n)"
| "birds_loop dt rnd n done (b # todo) =
     (let (b', n') = bird_update dt rnd n (done @ todo) b
      in birds_loop dt rnd n' (done @ [b']) todo)"

text \<open>The bird loop of a frame runs only while the birds are visible.\<close>

definition birds_frame :: "real \<Rightarrow> real \<Rightarrow> rng \<Rightarrow> nat \<Rightarrow> bird list \<Rightarrow> bird list \<times> nat" where
  "birds_frame dt tod rnd n birds =
     (if birdOpacity tod > 0 then birds_loop dt rnd n [] birds else (birds, n))"

section \<open>Chunk generation\<close>

definition TREE_DENSITY :: real where "TREE_DENSITY = 0.1"
definition BUSH_DENSITY :: real where "BUSH_DENSITY = 0.08"
definition DIRT_PATCH_DENSITY :: real where "DIRT_PATCH_DENSITY = 0.15"
definition FLOWER_DENSITY :: real where "FLOWER_DENSITY = 0.15"
definition MUSHROOM_DENSITY :: real where "MUSHROOM_DENSITY = 0.08"
definition GRASS_DENSITY :: real where "GRASS_DENSITY = 0.3"
definition BIRD_TREE_CHANCE :: real where "BIRD_TREE_CHANCE = 0.4"
definition VILLAGE_DENSITY :: real where "VILLAGE_DENSITY = 0.04"

text \<open>
  utils.ts, \<^verbatim>\<open>createNoise2D(12345)\<close>: the permutation table is filled from
  \<^verbatim>\<open>pseudoRandom\<close>, and \<^verbatim>\<open>Math.floor(x) & 255\<close> is the floor modulo 256.
\<close>

definition perm :: "int list" where
  "perm = map (\<lambda>i. \<lfloor>pseudoRandom (12345 + real i * 1.1) * 256\<rfloor>) [0..<256]"

definition ptab :: "int \<Rightarrow> int" where
  "ptab k = (perm @ perm) ! nat k"

definition fade :: "real \<Rightarrow> real" where
  "fade t = t * t * t * (t * (t * 6 - 15) + 10)"

definition nlerp :: "real \<Rightarrow> real \<Rightarrow> real \<Rightarrow> real" where
  "nlerp t a b = a + t * (b - a)"

definition grad :: "int \<Rightarrow> real \<Rightarrow> real \<Rightarrow> real" where
  "grad hash x y =
     (let h = hash mod 16;
          u = (if h < 8 then x else y);
          v = (if h < 8 then y else x)
      in (if h mod 2 = 0 then u else - u) + (if (h div 2) mod 2 = 0 then v else - v))"

definition floraNoise :: "real \<Rightarrow> real \<Rightarrow> real" where
  "floraNoise x0 y0 =
     (let X = \<lfloor>x0\<rfloor> mod 256;
          Y = \<lfloor>y0\<rfloor> mod 256;
          x = x0 - of_int \<lfloor>x0\<rfloor>;
          y = y0 - of_int \<lfloor>y0\<rfloor>;
          u = fade x;
          v = fade y;
          aa = ptab (ptab X + Y);
          ab = ptab (ptab X + Y + 1);
          ba = ptab (ptab (X + 1) + Y);
          bb = ptab (ptab (X + 1) + Y + 1)
      in nlerp v (nlerp u (grad (ptab aa) x y) (grad (ptab ba) (x - 1) y))
                 (nlerp u (grad (ptab ab) x (y - 1)) (grad (ptab bb) (x - 1) (y - 1))))"

text \<open>
  An instance of a decoration is the transform \<^verbatim>\<open>matrixDummy\<close> had when its matrix was
  cloned: a position and a rotation. The instance lists of a chunk are kept as one list
  of tagged instances in the order of the pushes; the list of one kind is its filter.
\<close>

datatype decor_kind =
  DirtBase | GrassTop | DirtTop | FlowerStem | RedFlowerHead | YellowFlowerHead
  | BlueFlowerHead | MushroomStalk | RedMushroomCap | BrownMushroomCap | GrassBlade

record placed =
  p_position :: vec3
  p_rotation :: vec3

type_synonym decor = "(decor_kind \<times> placed) list"

definition place :: "real \<Rightarrow> real \<Rightarrow> real \<Rightarrow> placed" where
  "place x y z = \<lparr>p_position = V3 x y z, p_rotation = V3 0 0 0\<rparr>"

definition instances :: "decor_kind \<Rightarrow> decor \<Rightarrow> placed list" where
  "instances k d = map snd (filter (\<lambda>e. fst e = k) d)"

text \<open>The seed of the chunk at \<open>(x, z)\<close> and the seed of the cell at a world position.\<close>

definition chunkSeed :: "int \<Rightarrow> int \<Rightarrow> real" where
  "chunkSeed x z = of_int x * 1839 + of_int z * 3847"

definition blockSeed :: "real \<Rightarrow> real \<Rightarrow> real" where
  "blockSeed worldX worldZ = of_int \<lfloor>worldX\<rfloor> * 1839 + of_int \<lfloor>worldZ\<rfloor> * 3847"

text \<open>The blades of one tuft of grass, \<open>numBlades\<close> of them at one place.\<close>

definition grass_blades :: "real \<Rightarrow> real \<Rightarrow> real \<Rightarrow> real \<Rightarrow> real \<Rightarrow> decor" where
  "grass_blades s grassX grassY grassZ rs =
     (let numBlades = 2 + \<lfloor>pseudoRandom s * 3\<rfloor>
      in map (\<lambda>k. (GrassBlade,
                    \<lparr>p_position = V3 grassX (grassY + 0.6) grassZ,
                     p_rotation = V3 ((pseudoRandom (rs * 15 + of_int k) - 0.5) * 0.4)
                                     (pseudoRandom (rs * 14 + of_int k) * pi * 2)
                                     ((pseudoRandom (rs * 16 + of_int k) - 0.5) * 0.4)\<rparr>))
             [0..<nat numBlades])"

text \<open>One cell of the ground loop, \<open>i\<close> and \<open>j\<close> even and below the chunk size.\<close>

definition cell_decor :: "int \<Rightarrow> int \<Rightarrow> int \<Rightarrow> int \<Rightarrow> decor" where
  "cell_decor x z i j =
     (let cs = of_int CHUNK_SIZE;
          lx = of_int i - cs / 2 + 1;
          lz = of_int j - cs / 2 + 1;
          worldX = of_int x * cs + of_int i - cs / 2 + 1;
          worldZ = of_int z * cs + of_int j - cs / 2 + 1;
          groundY = getHeight worldX worldZ;
          bs = blockSeed worldX worldZ;
          isDirtPatch = (pseudoRandom bs \<le> DIRT_PATCH_DENSITY);
          floraDensity = (floraNoise (worldX / 50) (worldZ / 50) + 1) / 2;
          floraSeed = bs * 3;
          flower =
            (if pseudoRandom floraSeed < FLOWER_DENSITY * floraDensity then
               (let flowerX = lx + (pseudoRandom (floraSeed * 2) - 0.5);
                    flowerZ = lz + (pseudoRandom (floraSeed * 3) - 0.5);
                    flowerY = getHeight (of_int x * cs + flowerX) (of_int z * cs + flowerZ);
                    colorRand = pseudoRandom (floraSeed * 5)
                in [(FlowerStem, place flowerX (flowerY + 0.25) flowerZ),
                    (if colorRand < 0.4 then RedFlowerHead
                     else if colorRand < 0.8 then YellowFlowerHead else BlueFlowerHead,
                     place flowerX (flowerY + 0.5) flowerZ)])
             else []);
          grass =
            (if pseudoRandom (floraSeed + 10) < GRASS_DENSITY * floraDensity * 2 then
               (let grassX = lx + (pseudoRandom (floraSeed * 11) - 0.5);
                    grassZ = lz + (pseudoRandom (floraSeed * 12) - 0.5);
                    grassY = getHeight (of_int x * cs + grassX) (of_int z * cs + grassZ)
                in grass_blades (floraSeed * 13) grassX grassY grassZ floraSeed)
             else []);
          floraSeedMush = bs * 5;
          floraDensityMush = (floraNoise (worldX / 20) (worldZ / 20) + 1) / 2;
          mushroom =
            (if isDirtPatch \<and> pseudoRandom floraSeedMush < MUSHROOM_DENSITY * floraDensityMush then
               (let mushX = lx + (pseudoRandom (floraSeedMush * 6) - 0.5);
                    mushZ = lz + (pseudoRandom (floraSeedMush * 7) - 0.5);
                    mushY = getHeight (of_int x * cs + mushX) (of_int z * cs + mushZ)
                in [(MushroomStalk, place mushX (mushY + 0.3) mushZ),
                    (if pseudoRandom (floraSeedMush * 9) < 0.6 then BrownMushroomCap
                     else RedMushroomCap, place mushX (mushY + 0.6) mushZ)])
             else [])
      in [(DirtBase, place lx (groundY - 1.75) lz)]
         @ (if \<not> isDirtPatch
            then [(GrassTop, place lx (groundY - 0.25) lz)] @ flower @ grass
            else [(DirtTop, place lx (groundY - 0.25) lz)])
         @ mushroom)"

definition cell_indices :: "int list" where
  "cell_indices = map (\<lambda>k. 2 * int k) [0..<nat (CHUNK_SIZE div 2)]"

definition ground_decor :: "int \<Rightarrow> int \<Rightarrow> decor" where
  "ground_decor x z =
     concat (map (\<lambda>i. concat (map (\<lambda>j. cell_decor x z i j) cell_indices)) cell_indices)"

text \<open>The tree of a chunk, if its gate passes, and the fifteen tufts of grass around it.\<close>

definition localTrees :: "int \<Rightarrow> int \<Rightarrow> vec3 list" where
  "localTrees x z =
     (let seed = chunkSeed x z; cs = of_int CHUNK_SIZE
      in if pseudoRandom seed < TREE_DENSITY
         then [V3 ((pseudoRandom (seed * 2) - 0.5) * cs * 0.8) 0
                  ((pseudoRandom (seed * 3) - 0.5) * cs * 0.8)]
         else [])"

definition chunkPosition :: "int \<Rightarrow> int \<Rightarrow> vec3" where
  "chunkPosition x z = V3 (of_int (x * CHUNK_SIZE)) 0 (of_int (z * CHUNK_SIZE))"

definition tree_grass :: "int \<Rightarrow> int \<Rightarrow> vec3 \<Rightarrow> decor" where
  "tree_grass x z treePos =
     (let seed = chunkSeed x z
      in concat (map (\<lambda>k.
           (let angle = pseudoRandom (seed * real k * 5) * pi * 2;
                radius = 1 + pseudoRandom (seed * real k * 7) * 3;
                grassX = vx treePos + cos angle * radius;
                grassZ = vz treePos + sin angle * radius;
                grassY = getHeight (vx (chunkPosition x z) + grassX) (vz (chunkPosition x z) + grassZ)
            in grass_blades (seed * real k * 9) grassX grassY grassZ seed))
           [0..<15]))"

definition chunk_decor :: "int \<Rightarrow> int \<Rightarrow> decor" where
  "chunk_decor x z = ground_decor x z @ concat (map (tree_grass x z) (localTrees x z))"

text \<open>world.ts: the bush, the house, the farm plot and the well. Of a house and a farm
  the model keeps what the placement reads: the size drawn from the seed, the interior
  point, the work points. The wall, roof, fence and crop meshes are built from those
  sizes and the seed alone.\<close>

record bush =
  bush_position :: vec3
  bush_leaves :: "vec3 list"

definition createBush :: "real \<Rightarrow> real \<Rightarrow> real \<Rightarrow> bush" where
  "createBush x z seed =
     (let size = 1 + pseudoRandom seed * 1.5
      in \<lparr>bush_position = V3 x 0.5 z,
          bush_leaves = map (\<lambda>i. V3 ((pseudoRandom (seed + i * 2) - 0.5) * size)
                                      ((pseudoRandom (seed + i * 3) - 0.3) * size * 0.5)
                                      ((pseudoRandom (seed + i * 5) - 0.5) * size))
                            (steps_below 0 (5 + pseudoRandom (seed + 1) * 5))\<rparr>)"

record house =
  h_position :: vec3
  h_rotationY :: real
  h_width :: real
  h_depth :: real
  h_interiorPoint :: vec3

definition createHouse :: "real \<Rightarrow> house" where
  "createHouse seed =
     \<lparr>h_position = V3 0 0 0, h_rotationY = 0,
      h_width = 5 + pseudoRandom seed * 2, h_depth = 6 + pseudoRandom (seed + 1) * 3,
      h_interiorPoint = V3 0 1 (- 1)\<rparr>"

record farm =
  f_position :: vec3
  f_width :: real
  f_depth :: real
  f_workPoints :: "vec3 list"

definition createFarmPlot :: "real \<Rightarrow> farm" where
  "createFarmPlot seed0 =
     (let width = 4 + of_int \<lfloor>pseudoRandom seed0 * 3\<rfloor>;
          depth = 6 + of_int \<lfloor>pseudoRandom (seed0 + 1) * 4\<rfloor>;
          seed = seed0 + 2
      in \<lparr>f_position = V3 0 0 0, f_width = width, f_depth = depth,
          f_workPoints =
            concat (map (\<lambda>x. concat (map (\<lambda>z.
                      (if pseudoRandom (seed + x * 17 + z * 31) < 0.2 then [] else [V3 x 0.5 z]))
                      (steps_below (- depth / 2 + 1) (depth / 2 - 1))))
                    (steps_below (- width / 2 + 1) (width / 2 - 1)))\<rparr>)"

record village =
  vg_id :: nat
  vg_position :: vec3
  vg_houses :: "house list"
  vg_farm :: farm
  vg_well :: vec3

text \<open>The houses of a village: each on a circle around the village centre, turned to it.\<close>

definition village_house :: "vec3 \<Rightarrow> real \<Rightarrow> int \<Rightarrow> nat \<Rightarrow> house" where
  "village_house vpos villageSeed numHouses i =
     (let h = createHouse (villageSeed + real i * 3);
          angle = (real i / of_int numHouses) * pi * 2 + pseudoRandom (villageSeed + real i) * 0.5;
          radius = 8 + pseudoRandom (villageSeed + real i * 2) * 4;
          houseX = cos angle * radius;
          houseZ = sin angle * radius
      in h\<lparr>h_position := V3 houseX (getHeight (vx vpos + houseX) (vz vpos + houseZ)) houseZ,
           h_rotationY := - angle + pi / 2\<rparr>)"

definition build_village :: "int \<Rightarrow> int \<Rightarrow> nat \<Rightarrow> village" where
  "build_village x z oid =
     (let vpos = chunkPosition x z;
          villageSeed = chunkSeed x z * 17;
          numHouses = 2 + \<lfloor>pseudoRandom villageSeed * 2\<rfloor>
      in \<lparr>vg_id = oid, vg_position = vpos,
          vg_houses = map (village_house vpos villageSeed numHouses) [0..<nat numHouses],
          vg_farm = (createFarmPlot (villageSeed + 11))
                      \<lparr>f_position := V3 0 (getHeight (vx vpos) (vz vpos)) 12\<rparr>,
          vg_well = V3 0 (getHeight (vx vpos) (vz vpos)) (- 2)\<rparr>)"

text \<open>A vector turned about the vertical axis, as \<^verbatim>\<open>applyQuaternion\<close> does with the
  quaternion of an object that is rotated about y only.\<close>

definition rotateY :: "real \<Rightarrow> vec3 \<Rightarrow> vec3" where
  "rotateY a v = V3 (cos a * vx v + sin a * vz v) (vy v) (- sin a * vx v + cos a * vz v)"

definition professions :: "VillagerProfession list" where
  "professions = [farmer, librarian, blacksmith, nitwit]"

text \<open>The \<open>i\<close>-th villager of a village: the profession, the timer and the work point
  come from the seed, the place where it appears from \<^verbatim>\<open>Math.random()\<close>.\<close>

definition spawn_villager :: "int \<Rightarrow> int \<Rightarrow> village \<Rightarrow> nat \<Rightarrow> nat \<Rightarrow> rng \<Rightarrow> nat \<Rightarrow> villager \<times> nat" where
  "spawn_villager x z vg i oid rnd n =
     (let villageSeed = chunkSeed x z * 17;
          prof = professions ! nat \<lfloor>pseudoRandom (villageSeed + real i * 19) * real (length professions)\<rfloor>;
          spawnAngle = rnd n * pi * 2;
          villagerX = vx (vg_position vg) + cos spawnAngle * 5;
          villagerZ = vz (vg_position vg) + sin spawnAngle * 5;
          homeHouse = vg_houses vg ! (i mod length (vg_houses vg));
          homePointInHouse = rotateY (h_rotationY homeHouse) (h_interiorPoint homeHouse);
          hp = vadd (vadd (h_position homeHouse) homePointInHouse) (vg_position vg);
          homePoint = hp\<lparr>vy := getHeight (vx hp) (vz hp) + 1\<rparr>;
          wps = f_workPoints (vg_farm vg);
          workPoint =
            (if prof = farmer \<and> length wps > 0 then
               (let pt = vadd (vadd (f_position (vg_farm vg)) (wps ! (i mod length wps))) (vg_position vg)
                in Some (pt\<lparr>vy := getHeight (vx pt) (vz pt) + 0.5\<rparr>))
             else None)
      in (\<lparr>v_id = oid, v_chunkId = (x, z),
           v_position = V3 villagerX (getHeight villagerX villagerZ) villagerZ,
           v_state = IDLE, v_prevState = None,
           v_stateTimer = pseudoRandom (villageSeed * 23 * real i) * 5 + 3,
           v_targetPosition = None, v_profession = prof, v_homePoint = homePoint,
           v_workPoint = workPoint, v_velocityY = 0, v_isOnGround = True\<rparr>, n + 1))"

fun spawn_villagers :: "int \<Rightarrow> int \<Rightarrow> village \<Rightarrow> nat list \<Rightarrow> nat \<Rightarrow> rng \<Rightarrow> nat \<Rightarrow> villager list \<times> nat" where
  "spawn_villagers x z vg [] oid rnd n = ([], n)"
| "spawn_villagers x z vg (i # is) oid rnd n =
     (let (v, n') = spawn_villager x z vg i oid rnd n;
          (vs, n'') = spawn_villagers x z vg is (oid + 1) rnd n'
      in (v # vs, n''))"

definition numVillagers :: "int \<Rightarrow> int \<Rightarrow> village \<Rightarrow> int" where
  "numVillagers x z vg = int (length (vg_houses vg)) + \<lfloor>pseudoRandom (chunkSeed x z * 17 + 17)\<rfloor>"

text \<open>The \<open>i\<close>-th bird of a tree: it sits on the nest if the tree has one, on a random
  leaf otherwise; its timer comes from the seed, the rest from \<^verbatim>\<open>Math.random()\<close>
  (the last two draws turn the bird and leave no trace in the record).\<close>

definition spawn_bird :: "int \<Rightarrow> int \<Rightarrow> tree \<Rightarrow> nat \<Rightarrow> nat \<Rightarrow> rng \<Rightarrow> nat \<Rightarrow> bird \<times> nat" where
  "spawn_bird x z t i oid rnd n =
     (let seed = chunkSeed x z;
          treeHasNest = (t_nest t \<noteq> None);
          (landingSpot, n1) = (case t_nest t of
                                 Some nst \<Rightarrow> (nest_position nst, n)
                               | None \<Rightarrow> findNewLandingSpot t rnd n);
          flapOffset = rnd n1 * pi * 2;
          vel = multiplyScalar (normalize (V3 ((rnd (n1 + 1) - 0.5) * 2) 0 ((rnd (n1 + 2) - 0.5) * 2)))
                  BIRD_MAX_SPEED;
          treeWorldPos = vadd (chunkPosition x z) (t_position t);
          p0 = vadd treeWorldPos landingSpot;
          p = (if treeHasNest then p0\<lparr>vy := vy p0 + 0.2\<rparr> else p0)
      in (\<lparr>b_id = oid, b_chunkId = (x, z), b_position = p, b_state = SITTING,
           b_flightMode = NONE,
           b_stateTimer = pseudoRandom (seed * 13 * (real i + 1)) * 10 + 5,
           b_homeTree = t, b_treeWorld = treeWorldPos, b_nest = treeHasNest,
           b_landingSpot = landingSpot, b_flapOffset = flapOffset, b_velocity = vel,
           b_circleAngle = 0, b_circleRadius = 0, b_circleAltitude = 0,
           b_swoopTarget = V3 0 0 0, b_swoopPhase = DIVE, b_audioPlaying = False\<rparr>, n1 + 5))"

fun spawn_birds :: "int \<Rightarrow> int \<Rightarrow> tree \<Rightarrow> nat list \<Rightarrow> nat \<Rightarrow> rng \<Rightarrow> nat \<Rightarrow> bird list \<times> nat" where
  "spawn_birds x z t [] oid rnd n = ([], n)"
| "spawn_birds x z t (i # is) oid rnd n =
     (let (b, n') = spawn_bird x z t i oid rnd n;
          (bs, n'') = spawn_birds x z t is (oid + 1) rnd n'
      in (b # bs, n''))"

text \<open>The tree at a place of the chunk, set on the terrain, and the birds it hosts.\<close>

definition plant_tree :: "int \<Rightarrow> int \<Rightarrow> vec3 \<Rightarrow> nat \<Rightarrow> rng \<Rightarrow> nat \<Rightarrow> (tree \<times> bird list) \<times> nat" where
  "plant_tree x z treePos oid rnd n =
     (let seed = chunkSeed x z;
          (t0, n1) = createTree (vx treePos) (vz treePos) seed rnd n;
          t = t0\<lparr>t_position := (t_position t0)
                  \<lparr>vy := getHeight (vx (chunkPosition x z) + vx treePos)
                                   (vz (chunkPosition x z) + vz treePos)\<rparr>\<rparr>
      in if pseudoRandom (seed * 5) < BIRD_TREE_CHANCE \<and> length (t_leaves t) > 0
         then (let numBirds = \<lfloor>pseudoRandom (seed * 7) * 3\<rfloor> + 1;
                   (bs, n2) = spawn_birds x z t [0..<nat numBirds] oid rnd n1
               in ((t, bs), n2))
         else ((t, []), n1))"

fun plant_trees :: "int \<Rightarrow> int \<Rightarrow> vec3 list \<Rightarrow> nat \<Rightarrow> rng \<Rightarrow> nat \<Rightarrow> (tree list \<times> bird list) \<times> nat" where
  "plant_trees x z [] oid rnd n = (([], []), n)"
| "plant_trees x z (treePos # rest) oid rnd n =
     (let ((t, bs), n1) = plant_tree x z treePos oid rnd n;
          ((ts, bs'), n2) = plant_trees x z rest (oid + length bs) rnd n1
      in ((t # ts, bs @ bs'), n2))"

definition chunk_bush :: "int \<Rightarrow> int \<Rightarrow> bush option" where
  "chunk_bush x z =
     (let seed = chunkSeed x z; cs = of_int CHUNK_SIZE
      in if pseudoRandom (seed * 5) < BUSH_DENSITY then
           (let bushX = (pseudoRandom (seed * 7) - 0.5) * cs * 0.9;
                bushZ = (pseudoRandom (seed * 11) - 0.5) * cs * 0.9;
                b = createBush bushX bushZ seed
            in Some (b\<lparr>bush_position := (bush_position b)
                         \<lparr>vy := getHeight (vx (chunkPosition x z) + bushX)
                                          (vz (chunkPosition x z) + bushZ) + 0.5\<rparr>\<rparr>))
         else None)"

section \<open>World streaming\<close>

text \<open>
  A chunk group carries the decoration instances, the trees and the bush of its chunk.
  Scene objects that the streaming code adds to and removes from the scene (chunk
  groups, village groups, birds, villagers) carry an identity, a number drawn from a
  counter when the object is created; the scene is the list of the identities of its
  children. The chunk id string \<^verbatim>\<open>`${x},${z}`\<close> is the pair of its two integers.
\<close>

record chunk =
  c_id :: nat
  c_position :: vec3
  c_decor :: decor
  c_trees :: "tree list"
  c_bush :: "bush option"

record world =
  activeChunks :: "(chunk_id \<times> chunk) list"
  activeVillages :: "(chunk_id \<times> village) list"
  birdsRef :: "bird list"
  villagersRef :: "villager list"
  scene :: "nat list"
  nextId :: nat

definition empty_world :: world where
  "empty_world = \<lparr>activeChunks = [], activeVillages = [], birdsRef = [], villagersRef = [],
                   scene = [], nextId = 0\<rparr>"

text \<open>A JavaScript \<^verbatim>\<open>Map\<close> as the list of its entries in insertion order.\<close>

definition has :: "('k \<times> 'v) list \<Rightarrow> 'k \<Rightarrow> bool" where
  "has m k = (map_of m k \<noteq> None)"

definition delete_key :: "'k \<Rightarrow> ('k \<times> 'v) list \<Rightarrow> ('k \<times> 'v) list" where
  "delete_key k m = filter (\<lambda>e. fst e \<noteq> k) m"

definition scene_remove :: "nat \<Rightarrow> nat list \<Rightarrow> nat list" where
  "scene_remove oid s = filter (\<lambda>other. other \<noteq> oid) s"

definition scene_remove_all :: "nat list \<Rightarrow> nat list \<Rightarrow> nat list" where
  "scene_remove_all oids s = foldr scene_remove oids s"

text \<open>The body of the generation loop for a coordinate that has no active chunk.\<close>

definition generateChunk :: "int \<Rightarrow> int \<Rightarrow> rng \<Rightarrow> nat \<Rightarrow> world \<Rightarrow> world \<times> nat" where
  "generateChunk x z rnd n w =
     (let chunkId = (x, z);
          cid = nextId w;
          ((trees, birds), n1) = plant_trees x z (localTrees x z) (cid + 1) rnd n;
          chunkGroup = \<lparr>c_id = cid, c_position = chunkPosition x z, c_decor = chunk_decor x z,
                        c_trees = trees, c_bush = chunk_bush x z\<rparr>;
          w1 = w\<lparr>birdsRef := birdsRef w @ birds, scene := scene w @ map b_id birds,
                 nextId := cid + 1 + length birds\<rparr>;
          (w2, n2) =
            (if pseudoRandom (chunkSeed x z * 13) < VILLAGE_DENSITY \<and> \<not> has (activeVillages w1) chunkId
             then (let vg = build_village x z (nextId w1);
                       (vs, n') = spawn_villagers x z vg [0..<nat (numVillagers x z vg)]
                                    (nextId w1 + 1) rnd n1
                   in (w1\<lparr>villagersRef := villagersRef w1 @ vs,
                          scene := scene w1 @ map v_id vs @ [vg_id vg],
                          activeVillages := activeVillages w1 @ [(chunkId, vg)],
                          nextId := nextId w1 + 1 + length vs\<rparr>, n'))
             else (w1, n1))
      in (w2\<lparr>scene := scene w2 @ [cid],
             activeChunks := activeChunks w2 @ [(chunkId, chunkGroup)]\<rparr>, n2))"

definition render_coords :: "int \<Rightarrow> int \<Rightarrow> chunk_id list" where
  "render_coords cx cz =
     concat (map (\<lambda>x. map (\<lambda>z. (x, z))
                        [cz - RENDER_DISTANCE_IN_CHUNKS .. cz + RENDER_DISTANCE_IN_CHUNKS])
                 [cx - RENDER_DISTANCE_IN_CHUNKS .. cx + RENDER_DISTANCE_IN_CHUNKS])"

fun generate_missing :: "chunk_id list \<Rightarrow> rng \<Rightarrow> nat \<Rightarrow> world \<Rightarrow> world \<times> nat" where
  "generate_missing [] rnd n w = (w, n)"
| "generate_missing ((x, z) # cs) rnd n w =
     (if \<not> has (activeChunks w) (x, z)
      then (let (w', n') = generateChunk x z rnd n w in generate_missing cs rnd n' w')
      else generate_missing cs rnd n w)"

text \<open>The body of the teardown loop for a chunk outside the render distance.\<close>

definition teardownChunk :: "chunk_id \<Rightarrow> chunk \<Rightarrow> world \<Rightarrow> world" where
  "teardownChunk chunkId chunk w =
     (let w1 = (case map_of (activeVillages w) chunkId of
                  Some village \<Rightarrow>
                    w\<lparr>scene := scene_remove_all
                                  (map v_id (filter (\<lambda>v. v_chunkId v = chunkId) (villagersRef w)))
                                  (scene_remove (vg_id village) (scene w)),
                      activeVillages := delete_key chunkId (activeVillages w),
                      villagersRef := filter (\<lambda>v. v_chunkId v \<noteq> chunkId) (villagersRef w)\<rparr>
                | None \<Rightarrow> w);
          w2 = w1\<lparr>scene := scene_remove_all
                              (map b_id (filter (\<lambda>b. b_chunkId b = chunkId) (birdsRef w1)))
                              (scene w1),
                  birdsRef := filter (\<lambda>b. b_chunkId b \<noteq> chunkId) (birdsRef w1)\<rparr>
      in w2\<lparr>scene := scene_remove (c_id chunk) (scene w2),
            activeChunks := delete_key chunkId (activeChunks w2)\<rparr>)"

definition out_of_range :: "int \<Rightarrow> int \<Rightarrow> chunk_id \<Rightarrow> bool" where
  "out_of_range cx cz c =
     (\<bar>fst c - cx\<bar> > RENDER_DISTANCE_IN_CHUNKS \<or> \<bar>snd c - cz\<bar> > RENDER_DISTANCE_IN_CHUNKS)"

fun teardown_far :: "int \<Rightarrow> int \<Rightarrow> (chunk_id \<times> chunk) list \<Rightarrow> world \<Rightarrow> world" where
  "teardown_far cx cz [] w = w"
| "teardown_far cx cz ((chunkId, chunk) # rest) w =
     teardown_far cx cz rest
       (if out_of_range cx cz chunkId then teardownChunk chunkId chunk w else w)"

definition chunkCoord :: "real \<Rightarrow> int" where
  "chunkCoord a = \<lfloor>a / of_int CHUNK_SIZE\<rfloor>"

text \<open>\<^verbatim>\<open>updateWorld\<close>: the generation loop over the render square, then the teardown loop
  over the active chunks.\<close>

definition generated :: "real \<Rightarrow> real \<Rightarrow> rng \<Rightarrow> nat \<Rightarrow> world \<Rightarrow> world \<times> nat" where
  "generated playerX playerZ rnd n w =
     generate_missing (render_coords (chunkCoord playerX) (chunkCoord playerZ)) rnd n w"

definition updateWorld :: "real \<Rightarrow> real \<Rightarrow> rng \<Rightarrow> nat \<Rightarrow> world \<Rightarrow> world \<times> nat" where
  "updateWorld playerX playerZ rnd n w =
     (let (w1, n1) = generated playerX playerZ rnd n w
      in (teardown_far (chunkCoord playerX) (chunkCoord playerZ) (activeChunks w1) w1, n1))"

section \<open>The frame\<close>

text \<open>
  The state of the scene effect that the frame loop advances: the player, the streamed
  world and \<^verbatim>\<open>lastPlayerChunk\<close>. \<open>g_reconciliations\<close> is not a variable of the
  source: it counts the calls of \<^verbatim>\<open>updateWorld\<close> that frames have made. The sky,
  the cameras, the particle systems and the limb animation are advanced by the frame too;
  they write none of the state kept here.
\<close>

record game =
  g_player :: player
  g_world :: world
  g_lastPlayerChunk :: "(int \<times> int) option"
  g_reconciliations :: nat

text \<open>\<^verbatim>\<open>!lastPlayerChunk || lastPlayerChunk.x !== playerChunkX || lastPlayerChunk.z !== playerChunkZ\<close>.\<close>

definition chunk_changed :: "(int \<times> int) option \<Rightarrow> int \<Rightarrow> int \<Rightarrow> bool" where
  "chunk_changed lastPlayerChunk playerChunkX playerChunkZ =
     (case lastPlayerChunk of
        None \<Rightarrow> True
      | Some l \<Rightarrow> fst l \<noteq> playerChunkX \<or> snd l \<noteq> playerChunkZ)"

text \<open>The bird loop and the villager loop of a frame; \<open>playerPos\<close> is the character's
  position before the player moves.\<close>

definition advance_entities :: "frame_input \<Rightarrow> vec3 \<Rightarrow> rng \<Rightarrow> nat \<Rightarrow> world \<Rightarrow> world \<times> nat" where
  "advance_entities inp playerPos rnd n w =
     (let tod = timeOfDay (elapsedTime inp);
          (birds, n1) = birds_frame (delta inp) tod rnd n (birdsRef w);
          (vills, n2) = villagers_frame (delta inp) tod playerPos rnd n1 (villagersRef w)
      in (w\<lparr>birdsRef := birds, villagersRef := vills\<rparr>, n2))"

definition animate :: "frame_input \<Rightarrow> rng \<Rightarrow> nat \<Rightarrow> game \<Rightarrow> game \<times> nat" where
  "animate inp rnd n g =
     (let (w1, n2) = advance_entities inp (pos (g_player g)) rnd n (g_world g);
          p = player_advance inp (g_player g);
          playerChunkX = chunkCoord (vx (pos p));
          playerChunkZ = chunkCoord (vz (pos p))
      in if chunk_changed (g_lastPlayerChunk g) playerChunkX playerChunkZ
         then (let (w2, n3) = updateWorld (vx (pos p)) (vz (pos p)) rnd n2 w1
               in (g\<lparr>g_player := p, g_world := w2,
                      g_lastPlayerChunk := Some (playerChunkX, playerChunkZ),
                      g_reconciliations := g_reconciliations g + 1\<rparr>, n3))
         else (g\<lparr>g_player := p, g_world := w1\<rparr>, n2))"

text \<open>The effect sets the scene up with one call of \<^verbatim>\<open>updateWorld\<close> at the player's
  place and leaves \<^verbatim>\<open>lastPlayerChunk\<close> null.\<close>

definition initial_game :: "rng \<Rightarrow> game \<times> nat" where
  "initial_game rnd =
     (let (w, n) = updateWorld (vx (pos initial_player)) (vz (pos initial_player)) rnd 0 empty_world
      in (\<lparr>g_player = initial_player, g_world = w, g_lastPlayerChunk = None,
            g_reconciliations = 0\<rparr>, n))"

text \<open>The states a session can be in: the initial one, and what frames and mouse moves
  make of it, for any stream of random numbers and any inputs.\<close>

inductive reachable :: "rng \<Rightarrow> game \<times> nat \<Rightarrow> bool" for rnd :: rng where
  start: "reachable rnd (initial_game rnd)"
| frame: "reachable rnd (g, n) \<Longrightarrow> reachable rnd (animate inp rnd n g)"
| mouse: "reachable rnd (g, n) \<Longrightarrow>
            reachable rnd (g\<lparr>g_player := handleMouseMove dx (g_player g)\<rparr>, n)"

section \<open>Notions the properties are stated with\<close>

text \<open>The chunk coordinate of the player.\<close>

definition playerChunk :: "player \<Rightarrow> int \<times> int" where
  "playerChunk p = (chunkCoord (vx (pos p)), chunkCoord (vz (pos p)))"

text \<open>A frame input with no key held and no joystick movement, a sixtieth of a second long.\<close>

definition still :: frame_input where
  "still = \<lparr>delta = 1 / 60, elapsedTime = 1, isMobile = False, moveX = 0, moveY = 0,
     keyForward = False, keyBack = False, keyLeft = False, keyRight = False, keyShift = False,
     keySpace = False, isJumping = False\<rparr>"


text \<open>One villager over several frames; a frame is its delta, its elapsed time and the
  player's position.\<close>

fun villager_frames :: "rng \<Rightarrow> nat \<Rightarrow> villager \<Rightarrow> (real \<times> real \<times> vec3) list \<Rightarrow> villager \<times> nat" where
  "villager_frames rnd n v [] = (v, n)"
| "villager_frames rnd n v ((dt, elapsed, playerPos) # fs) =
     (let (v', n') = villager_update dt (timeOfDay elapsed) playerPos rnd n v
      in villager_frames rnd n' v' fs)"


definition walker :: villager where
  "walker = \<lparr>v_id = 0, v_chunkId = (0, 0), v_position = V3 0 0 0, v_state = WANDERING,
     v_prevState = None, v_stateTimer = 1 / 2, v_targetPosition = Some (V3 0 0 3),
     v_profession = nitwit, v_homePoint = V3 0 1 (- 6), v_workPoint = None,
     v_velocityY = 0, v_isOnGround = True\<rparr>"

text \<open>Positions of the player: within the interaction radius of the origin, and outside.\<close>

definition player_near :: vec3 where "player_near = V3 0 1 5"
definition player_far :: vec3 where "player_far = V3 0 1 10"

text \<open>
  The rule of a sitting bird, as a relation between the bird before a frame of length
  \<open>dt\<close> and after it, when the random stream \<open>rnd\<close> is read from the cursor
  \<open>k\<close>. A bird further than 1.5 from its perch returns to it. Otherwise, when its
  timer has run out, it takes off, and the draw at the cursor selects the mode: below
  0.5 circling, below 0.85 exploring, swooping otherwise. Timer, angle, radius, altitude
  and dive target are the next draws of the stream, scaled: a draw \<open>u\<close> gives the
  circling timer \<open>u * 8 + 8\<close>, the radius \<open>u * 10 + 10\<close>, the altitude
  \<open>u * 5 + 5\<close>, the exploring timer \<open>u * 10 + 15\<close>, and a dive target offset
  \<open>(u - 0.5) * 20\<close> from the tree along \<open>x\<close> and along \<open>z\<close>, one unit below
  the tree's origin. Otherwise the bird keeps sitting.
\<close>

definition sitting_rule :: "real \<Rightarrow> rng \<Rightarrow> nat \<Rightarrow> bird \<Rightarrow> bird \<Rightarrow> bool" where
  "sitting_rule dt rnd k b b' =
     (if distanceTo (b_position b) (expectedPosition b) > 1.5
      then b_state b' = FLYING \<and> b_flightMode b' = RETURNING
      else if b_stateTimer b - dt \<le> 0
      then b_state b' = FLYING \<and>
           (if rnd k < 0.5
            then b_flightMode b' = CIRCLING
                 \<and> b_stateTimer b' = rnd (k + 1) * 8 + 8
                 \<and> b_circleAngle b' = rnd (k + 2) * pi * 2
                 \<and> b_circleRadius b' = rnd (k + 3) * 10 + 10
                 \<and> b_circleAltitude b' = rnd (k + 4) * 5 + 5
            else if rnd k < 0.85
            then b_flightMode b' = EXPLORING \<and> b_stateTimer b' = rnd (k + 1) * 10 + 15
            else b_flightMode b' = SWOOPING \<and> b_swoopPhase b' = DIVE
                 \<and> b_swoopTarget b' = V3 (vx (b_treeWorld b) + (rnd (k + 1) - 0.5) * 20)
                                           (vy (b_treeWorld b) - 1)
                                           (vz (b_treeWorld b) + (rnd (k + 2) - 0.5) * 20))
      else b_state b' = SITTING \<and> b_flightMode b' = b_flightMode b
           \<and> b_stateTimer b' = b_stateTimer b - dt)"

text \<open>
  The ranges the rule puts the drawn values in: when the bird has taken off circling, its
  timer is in \<open>[8, 16)\<close>, its radius in \<open>[10, 20)\<close> and its altitude in
  \<open>[5, 10)\<close>; exploring, its timer is in \<open>[15, 25)\<close>; swooping, its dive target
  is within ten units of the tree along \<open>x\<close> and \<open>z\<close>.
\<close>

definition takeoff_ranges :: "bird \<Rightarrow> bird \<Rightarrow> bool" where
  "takeoff_ranges b b' =
     (case b_flightMode b' of
        CIRCLING \<Rightarrow> 8 \<le> b_stateTimer b' \<and> b_stateTimer b' < 16
                    \<and> 10 \<le> b_circleRadius b' \<and> b_circleRadius b' < 20
                    \<and> 5 \<le> b_circleAltitude b' \<and> b_circleAltitude b' < 10
      | EXPLORING \<Rightarrow> 15 \<le> b_stateTimer b' \<and> b_stateTimer b' < 25
      | SWOOPING \<Rightarrow> \<bar>vx (b_swoopTarget b') - vx (b_treeWorld b)\<bar> \<le> 10
                    \<and> \<bar>vz (b_swoopTarget b') - vz (b_treeWorld b)\<bar> \<le> 10
      | _ \<Rightarrow> True)"

text \<open>
  The turn of a bird in the bird loop: the cursor of the random stream and the other
  birds, as the loop has left them, when it reaches the \<open>j\<close>-th of the birds still to
  be advanced.
\<close>

fun bird_turn :: "real \<Rightarrow> rng \<Rightarrow> nat \<Rightarrow> bird list \<Rightarrow> bird list \<Rightarrow> nat \<Rightarrow> nat \<times> bird list" where
  "bird_turn dt rnd n done [] j = (n, done)"
| "bird_turn dt rnd n done (b # todo) 0 = (n, done @ todo)"
| "bird_turn dt rnd n done (b # todo) (Suc j) =
     (let (b', n') = bird_update dt rnd n (done @ todo) b
      in bird_turn dt rnd n' (done @ [b']) todo j)"

text \<open>A stream of \<^verbatim>\<open>Math.random()\<close> yields numbers of \<open>[0, 1)\<close>.\<close>

definition unit_stream :: "rng \<Rightarrow> bool" where
  "unit_stream rnd = (\<forall>k. 0 \<le> rnd k \<and> rnd k < 1)"

text \<open>A bird sitting on its perch, on a tree with one leaf, with half a second on its
  timer.\<close>

definition percher :: bird where
  "percher = \<lparr>b_id = 0, b_chunkId = (0, 0), b_position = V3 0 5 0, b_state = SITTING,
     b_flightMode = NONE, b_stateTimer = 1 / 2,
     b_homeTree = \<lparr>t_position = V3 0 0 0, t_height = 6, t_trunkWidth = 1,
                    t_leaves = [V3 0 5.8 0], t_nest = None\<rparr>,
     b_treeWorld = V3 0 0 0, b_nest = False, b_landingSpot = V3 0 5 0, b_flapOffset = 0,
     b_velocity = V3 4 0 0, b_circleAngle = 0, b_circleRadius = 0, b_circleAltitude = 0,
     b_swoopTarget = V3 0 0 0, b_swoopPhase = DIVE, b_audioPlaying = False\<rparr>"



text \<open>
  What streaming keeps true of the tracked entities: every villager's chunk has a
  village in the map of villages, every village's chunk is active, and every bird's chunk
  is active.
\<close>

definition world_inv :: "world \<Rightarrow> bool" where
  "world_inv w =
     ((\<forall>v \<in> set (villagersRef w). has (activeVillages w) (v_chunkId v))
      \<and> (\<forall>k. has (activeVillages w) k \<longrightarrow> has (activeChunks w) k)
      \<and> (\<forall>b \<in> set (birdsRef w). has (activeChunks w) (b_chunkId b)))"

text \<open>
  The layout of a tree, of a chunk and of a village: everything placed in them but the
  identities of the scene objects and the twigs inside a nest, which \<^verbatim>\<open>createNest\<close>
  scatters with \<^verbatim>\<open>Math.random()\<close>. A tree's layout is its position, height, trunk width,
  leaf cells and the position of its nest; a chunk's is its position, its decoration
  instances, its trees and its bush; a village's is its position, houses, farm and well.
\<close>

type_synonym tree_layout = "vec3 \<times> real \<times> real \<times> vec3 list \<times> vec3 option"

definition tree_layout :: "tree \<Rightarrow> tree_layout" where
  "tree_layout t =
     (t_position t, t_height t, t_trunkWidth t, t_leaves t, map_option nest_position (t_nest t))"

type_synonym chunk_layout = "vec3 \<times> decor \<times> tree_layout list \<times> bush option"

definition chunk_layout :: "chunk \<Rightarrow> chunk_layout" where
  "chunk_layout c = (c_position c, c_decor c, map tree_layout (c_trees c), c_bush c)"

type_synonym village_layout = "vec3 \<times> house list \<times> farm \<times> vec3"

definition village_layout :: "village \<Rightarrow> village_layout" where
  "village_layout vg = (vg_position vg, vg_houses vg, vg_farm vg, vg_well vg)"

text \<open>
  The layout at a chunk coordinate, written from the coordinate alone: the decoration of
  the chunk, the layout of the trees planted with the constant stream of zeros, the bush;
  and the village, present when its seeded gate passes.
\<close>

definition layout_at :: "int \<Rightarrow> int \<Rightarrow> chunk_layout" where
  "layout_at x z =
     (chunkPosition x z, chunk_decor x z,
      map tree_layout (fst (fst (plant_trees x z (localTrees x z) 0 (\<lambda>k. 0) 0))),
      chunk_bush x z)"

definition village_at :: "int \<Rightarrow> int \<Rightarrow> village_layout option" where
  "village_at x z =
     (if pseudoRandom (chunkSeed x z * 13) < VILLAGE_DENSITY
      then Some (village_layout (build_village x z 0)) else None)"

text \<open>Every active chunk of a world has the layout of its coordinate, and a village
  exactly when the coordinate has one.\<close>

definition world_canonical :: "world \<Rightarrow> bool" where
  "world_canonical w =
     (\<forall>c ch. map_of (activeChunks w) c = Some ch \<longrightarrow>
        chunk_layout ch = layout_at (fst c) (snd c)
        \<and> map_option village_layout (map_of (activeVillages w) c) = village_at (fst c) (snd c))"

text \<open>The chunks a teardown loop over the entries \<open>es\<close> tears down: those of \<open>es\<close>
  outside the render distance of the chunk \<open>(cx, cz)\<close>.\<close>

definition torn :: "int \<Rightarrow> int \<Rightarrow> (chunk_id \<times> chunk) list \<Rightarrow> chunk_id \<Rightarrow> bool" where
  "torn cx cz es c = (c \<in> fst ` set es \<and> out_of_range cx cz c)"

text \<open>The village gate of a chunk: the seeded draw, and the latch on the map of villages.\<close>

definition village_gate :: "int \<Rightarrow> int \<Rightarrow> world \<Rightarrow> bool" where
  "village_gate x z w =
     (pseudoRandom (chunkSeed x z * 13) < VILLAGE_DENSITY \<and> \<not> has (activeVillages w) (x, z))"

text \<open>A world with one active chunk, a hundred chunks away from the origin along both
  axes, that owns a village, a bird and a villager.\<close>

definition far_world :: world where
  "far_world =
     \<lparr>activeChunks = [((100, 100), \<lparr>c_id = 0, c_position = chunkPosition 100 100, c_decor = [],
                                     c_trees = [], c_bush = None\<rparr>)],
      activeVillages = [((100, 100), \<lparr>vg_id = 2, vg_position = chunkPosition 100 100,
                                       vg_houses = [],
                                       vg_farm = \<lparr>f_position = V3 0 0 12, f_width = 4,
                                                  f_depth = 6, f_workPoints = []\<rparr>,
                                       vg_well = V3 0 0 (- 2)\<rparr>)],
      birdsRef = [percher\<lparr>b_id := 1, b_chunkId := (100, 100)\<rparr>],
      villagersRef = [walker\<lparr>v_id := 3, v_chunkId := (100, 100)\<rparr>],
      scene = [1, 3, 2, 0], nextId = 4\<rparr>"

(*DEFS-END*)

section \<open>Properties of the player controller\<close>

lemma player_ground_above:
  "getHeight (vx (pos (player_ground dt p))) (vz (pos (player_ground dt p))) + 1
     \<le> vy (pos (player_ground dt p))"
  by (simp add: player_ground_def Let_def)

lemma player_jump_pos: "pos (player_jump inp p) = pos p"
  by (simp add: player_jump_def)

lemma player_advance_pos:
  "pos (player_advance inp p) = pos (player_ground (delta inp) (player_move inp p))"
  by (simp add: player_advance_def Let_def player_jump_pos)

text \<open>
  C1. Whatever the player's state before a frame, and whatever that frame's inputs and
  delta, after the frame the player stands at least one unit above the terrain height at
  its own \<open>(x, z)\<close>, hence never below the terrain: this holds for each frame of every
  sequence of frames and mouse moves, from every starting state.
\<close>

theorem player_no_terrain_clipping:
  "getHeight (vx (pos (player_advance inp (player_run p0 evs))))
             (vz (pos (player_advance inp (player_run p0 evs)))) + 1
     \<le> vy (pos (player_advance inp (player_run p0 evs)))
   \<and> getHeight (vx (pos (player_advance inp (player_run p0 evs))))
               (vz (pos (player_advance inp (player_run p0 evs))))
     \<le> vy (pos (player_advance inp (player_run p0 evs)))"
proof -
  have "getHeight (vx (pos (player_advance inp (player_run p0 evs))))
             (vz (pos (player_advance inp (player_run p0 evs)))) + 1
     \<le> vy (pos (player_advance inp (player_run p0 evs)))"
    unfolding player_advance_pos by (rule player_ground_above)
  then show ?thesis by simp
qed

section \<open>Properties of the particle system\<close>

lemma initParticle_active: "active (fst (initParticle p opts rnd n))"
  by (simp add: initParticle_def Let_def split_beta)

lemma emit_loop_length: "length (fst (emit_loop ps opts c rnd n)) = length ps"
  by (induction ps arbitrary: c n) (simp_all add: Let_def split_beta)

lemma emit_loop_keeps_active:
  "i < length ps \<Longrightarrow> active (ps ! i) \<Longrightarrow> fst (emit_loop ps opts c rnd n) ! i = ps ! i"
proof (induction ps arbitrary: c n i)
  case Nil
  then show ?case by simp
next
  case (Cons p ps)
  show ?case
  proof (cases i)
    case 0
    with Cons.prems show ?thesis by (simp add: Let_def split_beta)
  next
    case (Suc j)
    with Cons.prems have j: "j < length ps" "active (ps ! j)" by simp_all
    show ?thesis using Cons.IH[OF j] Suc
      by (simp add: Let_def split_beta)
  qed
qed

lemma activated_same: "activated ps ps = 0"
  by (induction ps) (simp_all add: activated_def)

lemma emit_loop_activated:
  "activated ps (fst (emit_loop ps opts c rnd n))
     = min (nat (o_count opts - c)) (inactive_count ps)"
proof (induction ps arbitrary: c n)
  case Nil
  then show ?case by (simp add: activated_def inactive_count_def)
next
  case (Cons p ps)
  show ?case
  proof (cases "c < o_count opts")
    case False
    then show ?thesis by (simp add: activated_same)
  next
    case True
    show ?thesis
    proof (cases "active p")
      case True
      with \<open>c < o_count opts\<close> Cons.IH[of c n] show ?thesis
        by (simp add: activated_def inactive_count_def Let_def split_beta)
    next
      case False
      have "nat (o_count opts - c) = Suc (nat (o_count opts - (c + 1)))"
        using \<open>c < o_count opts\<close> by linarith
      with False \<open>c < o_count opts\<close> Cons.IH[of "c + 1" "snd (initParticle p opts rnd n)"]
        initParticle_active[of p opts rnd n]
      show ?thesis
        by (simp add: activated_def inactive_count_def Let_def split_beta)
    qed
  qed
qed

lemma emit_loop_full: "inactive_count ps = 0 \<Longrightarrow> emit_loop ps opts c rnd n = (ps, n)"
proof (induction ps arbitrary: c n)
  case Nil
  then show ?case by simp
next
  case (Cons p ps)
  from Cons.prems have a: "active p" and r: "inactive_count ps = 0"
    by (auto simp: inactive_count_def split: if_splits)
  show ?case using a Cons.IH[OF r] by (simp add: Let_def)
qed

text \<open>
  C9. A call of \<^verbatim>\<open>emit\<close> leaves the pool at its size, leaves every active slot as it
  was (so none is modified or deactivated), and activates exactly
  \<open>min count (number of inactive slots)\<close> slots, \<open>count\<close> read as a natural number;
  on a full pool it returns the pool unchanged. The function is total and has no
  error result: a full pool is not reported.
\<close>

theorem emit_activates_free_slots:
  "length (fst (emit ps opts rnd n)) = length ps
   \<and> (\<forall>i < length ps. active (ps ! i) \<longrightarrow> fst (emit ps opts rnd n) ! i = ps ! i)
   \<and> activated ps (fst (emit ps opts rnd n)) = min (nat (o_count opts)) (inactive_count ps)
   \<and> (0 \<le> o_count opts \<longrightarrow>
        int (activated ps (fst (emit ps opts rnd n))) = min (o_count opts) (int (inactive_count ps)))
   \<and> (inactive_count ps = 0 \<longrightarrow> fst (emit ps opts rnd n) = ps)"
proof -
  have a: "activated ps (fst (emit ps opts rnd n)) = min (nat (o_count opts)) (inactive_count ps)"
    using emit_loop_activated[of ps opts 0 rnd n] by (simp add: emit_def)
  have b: "0 \<le> o_count opts \<longrightarrow>
        int (activated ps (fst (emit ps opts rnd n))) = min (o_count opts) (int (inactive_count ps))"
    unfolding a by auto
  show ?thesis
    using a b by (simp add: emit_def emit_loop_length emit_loop_keeps_active emit_loop_full)
qed

theorem emit_activates_free_slots_witness:
  "(let opts = \<lparr>o_position = V3 0 0 0, o_count = 5, o_color = None, o_velocity = None,
                 o_velocityRandomness = None, o_size = None, o_life = None, o_gravity = None,
                 o_rotationSpeed = None\<rparr>;
        busy = fresh_particle\<lparr>active := True, life := 2\<rparr>;
        ps = [busy, fresh_particle, busy, fresh_particle];
        ps' = fst (emit ps opts (\<lambda>k. 0) 0)
    in (0::nat) < length ps \<and> active (ps ! 0) \<and> ps' ! 0 = ps ! 0 \<and> ps' ! 2 = ps ! 2
       \<and> length ps' = 4 \<and> 0 \<le> o_count opts \<and> inactive_count ps = 2
       \<and> int (activated ps ps') = 2
       \<and> inactive_count [busy, busy] = 0 \<and> fst (emit [busy, busy] opts (\<lambda>k. 0) 0) = [busy, busy])"
  using emit_activates_free_slots[of
      "[fresh_particle\<lparr>active := True, life := 2\<rparr>, fresh_particle,
        fresh_particle\<lparr>active := True, life := 2\<rparr>, fresh_particle]"
      "\<lparr>o_position = V3 0 0 0, o_count = 5, o_color = None, o_velocity = None,
        o_velocityRandomness = None, o_size = None, o_life = None, o_gravity = None,
        o_rotationSpeed = None\<rparr>" "\<lambda>k. 0" 0]
    emit_activates_free_slots[of
      "[fresh_particle\<lparr>active := True, life := 2\<rparr>, fresh_particle\<lparr>active := True, life := 2\<rparr>]"
      "\<lparr>o_position = V3 0 0 0, o_count = 5, o_color = None, o_velocity = None,
        o_velocityRandomness = None, o_size = None, o_life = None, o_gravity = None,
        o_rotationSpeed = None\<rparr>" "\<lambda>k. 0" 0]
  by (simp add: Let_def inactive_count_def fresh_particle_def)

section \<open>Properties of the villager routine\<close>









lemma sqrt_less_pos: "0 < r \<Longrightarrow> sqrt x < r \<longleftrightarrow> x < r * r"
  by (metis abs_of_pos real_sqrt_abs2 real_sqrt_less_iff)

lemma sqrt_ge_pos: "0 < r \<Longrightarrow> r \<le> sqrt x \<longleftrightarrow> r * r \<le> x"
  by (metis abs_of_pos real_sqrt_abs2 real_sqrt_le_iff)

lemma timeOfDay_first_cycle: "0 \<le> e \<Longrightarrow> e < 195 \<Longrightarrow> timeOfDay e = (e + 105) / 300"
proof -
  assume a: "0 \<le> e" "e < 195"
  have "\<lfloor>(e + 105) / 300\<rfloor> = 0" using a by (simp add: floor_eq_iff)
  then show ?thesis using a
    by (simp add: timeOfDay_def rem1_def START_TIME_OFFSET_def DAY_NIGHT_CYCLE_SECONDS_def)
qed

lemmas villager_eval =
  villager_update_def villager_physics_def villager_time_gate_def villager_interaction_def
  villager_timer_def villager_act_def villager_arrive_def Let_def V3_def vlerp_def GRAVITY_def
  getHeight_def distanceTo_def vlength_def lengthSq_def vsub_def VILLAGER_INTERACTION_RADIUS_def
  sqrt_less_pos sqrt_ge_pos player_near_def player_far_def timeOfDay_first_cycle




text \<open>
  C4. The walker wanders with half a second on its timer, in daytime. The player comes
  within the interaction radius: the walker looks at the player and \<^verbatim>\<open>prevState\<close>
  holds \<open>WANDERING\<close>. The player stays: in the fourth frame the timer runs out and the
  timer block sets the state to \<open>IDLE\<close>; in the fifth the interaction block saves that
  \<open>IDLE\<close> over the saved \<open>WANDERING\<close>. When the player then leaves, the walker
  resumes \<open>IDLE\<close>, not \<open>WANDERING\<close>.
\<close>

theorem villager_resume_lost_on_timer_expiry:
  "v_state walker = WANDERING
   \<and> v_state (fst (villager_frames (\<lambda>k. 1 / 2) 0 walker [(1 / 8, 1 / 8, player_near)]))
       = LOOKING_AT_PLAYER
   \<and> v_prevState (fst (villager_frames (\<lambda>k. 1 / 2) 0 walker [(1 / 8, 1 / 8, player_near)]))
       = Some WANDERING
   \<and> v_state (fst (villager_frames (\<lambda>k. 1 / 2) 0 walker
        [(1 / 8, 1 / 8, player_near), (1 / 8, 2 / 8, player_near), (1 / 8, 3 / 8, player_near),
         (1 / 8, 4 / 8, player_near)])) = IDLE
   \<and> v_prevState (fst (villager_frames (\<lambda>k. 1 / 2) 0 walker
        [(1 / 8, 1 / 8, player_near), (1 / 8, 2 / 8, player_near), (1 / 8, 3 / 8, player_near),
         (1 / 8, 4 / 8, player_near), (1 / 8, 5 / 8, player_near)])) = Some IDLE
   \<and> v_state (fst (villager_frames (\<lambda>k. 1 / 2) 0 walker
        [(1 / 8, 1 / 8, player_near), (1 / 8, 2 / 8, player_near), (1 / 8, 3 / 8, player_near),
         (1 / 8, 4 / 8, player_near), (1 / 8, 5 / 8, player_near), (1 / 8, 6 / 8, player_far)]))
       = IDLE"
  by (simp add: walker_def villager_eval)

text \<open>Had the player left before the timer ran out, the walker would have resumed
  wandering, with a fresh timer of two seconds.\<close>

lemma villager_resumes_before_timer_expiry:
  "v_state (fst (villager_frames (\<lambda>k. 1 / 2) 0 walker
        [(1 / 8, 1 / 8, player_near), (1 / 8, 2 / 8, player_near), (1 / 8, 3 / 8, player_far)]))
     = WANDERING
   \<and> v_stateTimer (fst (villager_frames (\<lambda>k. 1 / 2) 0 walker
        [(1 / 8, 1 / 8, player_near), (1 / 8, 2 / 8, player_near), (1 / 8, 3 / 8, player_far)]))
     = 2"
  by (simp add: walker_def villager_eval)

section \<open>Properties of trees and nests\<close>

lemma pseudoRandom_range: "0 \<le> pseudoRandom s \<and> pseudoRandom s < 1"
  by (simp add: pseudoRandom_def Let_def) linarith


lemma pick_in_range: "0 < length xs \<Longrightarrow> nat \<lfloor>pseudoRandom s * real (length xs)\<rfloor> < length xs"
proof -
  assume a: "0 < length xs"
  have "pseudoRandom s * real (length xs) < real (length xs)"
    using pseudoRandom_range[of s] a by simp
  moreover have "0 \<le> pseudoRandom s * real (length xs)"
    using pseudoRandom_range[of s] by simp
  ultimately show ?thesis
    by (metis floor_less_iff nat_less_iff of_int_of_nat_eq zero_le_floor)
qed


lemma createTree_leaves:
  "t_leaves (fst (createTree x z seed rnd n))
     = canopy_cells seed (5 + pseudoRandom (seed + 1) * 4 - 2) (3 + pseudoRandom (seed + 3) * 2)
         (2 + pseudoRandom (seed + 4) * 1.5)"
  by (simp add: createTree_def Let_def split_beta)




end
